theory Spec2Isabelle
  imports Main
begin

section \<open>Strings, formatting and paths of the Go standard library\<close>

text \<open>
  Go strings are byte sequences; they are modelled as \<^typ>\<open>string\<close>, and a rune is the
  number of its code point. \<open>strings.ToLower\<close> and \<open>strings.TrimSpace\<close> read a string as
  UTF-8, so the decoder and the encoder of \<open>unicode/utf8\<close> come first.
\<close>

abbreviation nl :: string where
  "nl \<equiv> [CHR 0x0A]"

text \<open>
  \<open>utf8.DecodeRuneInString\<close>: the first rune of the string and its width in bytes. A byte
  that starts no valid encoding (a stray continuation byte, an over-long form, a surrogate,
  a truncated sequence) is the rune \<open>U+FFFD\<close> of width 1. A byte is read only below
  the length of the string.
\<close>

definition RuneError :: nat where
  "RuneError = 65533"

definition DecodeRune :: "string \<Rightarrow> nat \<times> nat" where
  "DecodeRune s =
     (let n = length s;
          b0 = (of_char (s ! 0) :: nat);
          b1 = (of_char (s ! 1) :: nat);
          b2 = (of_char (s ! 2) :: nat);
          b3 = (of_char (s ! 3) :: nat);
          sz = (if b0 < 224 then 2 else if b0 < 240 then 3 else (4::nat));
          lo = (if b0 = 224 then 160 else if b0 = 240 then 144 else (128::nat));
          hi = (if b0 = 237 then 159 else if b0 = 244 then 143 else (191::nat))
      in if n < 1 then (RuneError, 0)
         else if b0 < 128 then (b0, 1)
         else if b0 < 194 \<or> 244 < b0 then (RuneError, 1)
         else if n < sz then (RuneError, 1)
         else if b1 < lo \<or> hi < b1 then (RuneError, 1)
         else if sz \<le> 2 then ((b0 mod 32) * 64 + b1 mod 64, 2)
         else if b2 < 128 \<or> 191 < b2 then (RuneError, 1)
         else if sz \<le> 3 then ((b0 mod 16) * 4096 + (b1 mod 64) * 64 + b2 mod 64, 3)
         else if b3 < 128 \<or> 191 < b3 then (RuneError, 1)
         else ((b0 mod 8) * 262144 + (b1 mod 64) * 4096 + (b2 mod 64) * 64 + b3 mod 64, 4))"

text \<open>
  \<open>utf8.DecodeLastRuneInString\<close>: it looks back over at most three bytes for the nearest
  byte that is no continuation byte and decodes from there; the rune counts only when it
  ends exactly at the end of the string.
\<close>

definition RuneStart :: "char \<Rightarrow> bool" where
  "RuneStart c = ((of_char c :: nat) div 64 \<noteq> 2)"

definition lastRuneStart :: "string \<Rightarrow> nat" where
  "lastRuneStart s =
     (let n = length s
      in if 2 \<le> n \<and> RuneStart (s ! (n - 2)) then n - 2
         else if 3 \<le> n \<and> RuneStart (s ! (n - 3)) then n - 3
         else n - 4)"

definition DecodeLastRune :: "string \<Rightarrow> nat \<times> nat" where
  "DecodeLastRune s =
     (if s = [] then (RuneError, 0)
      else if (of_char (last s) :: nat) < 128 then (of_char (last s), 1)
      else
        (let start = lastRuneStart s;
             (r, size) = DecodeRune (drop start s)
         in if start + size \<noteq> length s then (RuneError, 1) else (r, size)))"

text \<open>\<open>utf8.AppendRune\<close>: the bytes of a rune; a surrogate or a value above \<open>U+10FFFF\<close> is written as \<open>U+FFFD\<close>.\<close>

definition EncodeRune :: "nat \<Rightarrow> string" where
  "EncodeRune r =
     (if r \<le> 127 then [char_of r]
      else if r \<le> 2047 then [char_of (192 + r div 64), char_of (128 + r mod 64)]
      else if 1114111 < r \<or> (55296 \<le> r \<and> r \<le> 57343) then
        [char_of (239::nat), char_of (191::nat), char_of (189::nat)]
      else if r \<le> 65535 then
        [char_of (224 + r div 4096), char_of (128 + (r div 64) mod 64), char_of (128 + r mod 64)]
      else
        [char_of (240 + r div 262144), char_of (128 + (r div 4096) mod 64),
         char_of (128 + (r div 64) mod 64), char_of (128 + r mod 64)])"

text \<open>
  The runes that \<open>for _, c := range s\<close> visits; \<open>skip\<close> counts the bytes still to pass
  of the rune decoded last.
\<close>

primrec range_runes :: "nat \<Rightarrow> string \<Rightarrow> nat list" where
  "range_runes skip [] = []"
| "range_runes skip (c # cs) =
     (if 0 < skip then range_runes (skip - 1) cs
      else fst (DecodeRune (c # cs)) # range_runes (snd (DecodeRune (c # cs)) - 1) cs)"

text \<open>
  \<open>unicode.ToLower\<close> maps the letters A to Z itself and looks every rune above ASCII up
  in the case table of the Unicode version the library was built for. That table is no
  part of this repository: it is the parameter \<open>caseTable\<close>. \<open>strings.ToLower\<close> maps
  every rune of the string and writes the results back as UTF-8 (its short cut for a
  string of ASCII bytes gives the same bytes).
\<close>

definition unicode_ToLower :: "(nat \<Rightarrow> nat) \<Rightarrow> nat \<Rightarrow> nat" where
  "unicode_ToLower caseTable r =
     (if r \<le> 127 then (if 65 \<le> r \<and> r \<le> 90 then r + 32 else r) else caseTable r)"

definition ToLower :: "(nat \<Rightarrow> nat) \<Rightarrow> string \<Rightarrow> string" where
  "ToLower caseTable s = concat (map (\<lambda>r. EncodeRune (unicode_ToLower caseTable r)) (range_runes 0 s))"

text \<open>
  \<open>unicode.IsSpace\<close>, the property White_Space: the six ASCII characters, \<open>U+0085\<close>,
  \<open>U+00A0\<close>, \<open>U+1680\<close>, \<open>U+2000\<close> to \<open>U+200A\<close>, \<open>U+2028\<close>, \<open>U+2029\<close>, \<open>U+202F\<close>,
  \<open>U+205F\<close> and \<open>U+3000\<close>. \<open>strings.TrimSpace\<close> removes the leading runes with the
  property, then the trailing ones.
\<close>

definition IsSpace :: "nat \<Rightarrow> bool" where
  "IsSpace r =
     (r \<in> {9, 10, 11, 12, 13, 32, 133, 160, 5760, 8232, 8233, 8239, 8287, 12288}
      \<or> (8192 \<le> r \<and> r \<le> 8202))"

fun TrimLeftFunc :: "(nat \<Rightarrow> bool) \<Rightarrow> string \<Rightarrow> string" where
  "TrimLeftFunc f [] = []"
| "TrimLeftFunc f (c # cs) =
     (if f (fst (DecodeRune (c # cs))) then TrimLeftFunc f (drop (snd (DecodeRune (c # cs)) - 1) cs)
      else c # cs)"

function TrimRightFunc :: "(nat \<Rightarrow> bool) \<Rightarrow> string \<Rightarrow> string" where
  "TrimRightFunc f s =
     (if s \<noteq> [] \<and> f (fst (DecodeLastRune s))
      then TrimRightFunc f (take (length s - snd (DecodeLastRune s)) s)
      else s)"
  by pat_completeness auto
termination
proof (relation "measure (\<lambda>(f, s). length s)")
  show "wf (measure (\<lambda>(f, s). length s))" by simp
next
  fix f :: "nat \<Rightarrow> bool" and s :: string
  assume a: "s \<noteq> [] \<and> f (fst (DecodeLastRune s))"
  from a have "0 < length s" by simp
  then have "length s - 2 < length s" "length s - 3 < length s" "length s - 4 < length s"
    by arith+
  then have lt: "lastRuneStart s < length s"
    unfolding lastRuneStart_def Let_def by (simp only: if_P if_not_P split: if_split) blast
  have "1 \<le> snd (DecodeLastRune s)"
  proof (cases "DecodeRune (drop (lastRuneStart s) s)")
    case (Pair r size)
    with lt a show ?thesis by (auto simp add: DecodeLastRune_def Let_def)
  qed
  with a show "((f, take (length s - snd (DecodeLastRune s)) s), (f, s)) \<in> measure (\<lambda>(f, s). length s)"
    by (cases s) auto
qed

definition TrimSpace :: "string \<Rightarrow> string" where
  "TrimSpace s = TrimRightFunc IsSpace (TrimLeftFunc IsSpace s)"

fun HasPrefix :: "string \<Rightarrow> string \<Rightarrow> bool" where
  "HasPrefix s [] = True"
| "HasPrefix [] (p # ps) = False"
| "HasPrefix (c # cs) (p # ps) = (c = p \<and> HasPrefix cs ps)"

fun Contains :: "string \<Rightarrow> string \<Rightarrow> bool" where
  "Contains [] substr = (substr = [])"
| "Contains (c # cs) substr = (HasPrefix (c # cs) substr \<or> Contains cs substr)"

text \<open>The verbs \<open>%d\<close> and \<open>%02d\<close> of \<open>fmt\<close>.\<close>

definition digit :: "nat \<Rightarrow> char" where
  "digit n = char_of (48 + n)"

fun show_nat :: "nat \<Rightarrow> string" where
  "show_nat n = (if n < 10 then [digit n] else show_nat (n div 10) @ [digit (n mod 10)])"

definition show_int :: "int \<Rightarrow> string" where
  "show_int i = (if i < 0 then CHR ''-'' # show_nat (nat (- i)) else show_nat (nat i))"

definition pad2 :: "nat \<Rightarrow> string" where
  "pad2 n = (if n < 10 then CHR ''0'' # show_nat n else show_nat n)"

text \<open>\<open>path/filepath\<close> on Unix: \<open>Clean\<close>, \<open>Join\<close>, \<open>IsAbs\<close> and \<open>Abs\<close>.\<close>

fun splitOn :: "char \<Rightarrow> string \<Rightarrow> string list" where
  "splitOn sep [] = [[]]"
| "splitOn sep (c # cs) =
     (if c = sep then [] # splitOn sep cs
      else (case splitOn sep cs of [] \<Rightarrow> [[c]] | x # xs \<Rightarrow> (c # x) # xs))"

fun strings_Join :: "string list \<Rightarrow> string \<Rightarrow> string" where
  "strings_Join [] sep = []"
| "strings_Join [x] sep = x"
| "strings_Join (x # y # ys) sep = x @ sep @ strings_Join (y # ys) sep"

text \<open>
  The elements kept by \<open>Clean\<close>, with the stack of kept elements reversed in \<open>out\<close>:
  empty and \<open>.\<close> elements are dropped, \<open>..\<close> removes the element before it, is kept
  at the start of a relative path and dropped at the root.
\<close>

fun clean_elems :: "bool \<Rightarrow> string list \<Rightarrow> string list \<Rightarrow> string list" where
  "clean_elems rooted out [] = rev out"
| "clean_elems rooted out (el # els) =
     (if el = [] \<or> el = ''.'' then clean_elems rooted out els
      else if el = ''..'' then
        (case out of
           [] \<Rightarrow> if rooted then clean_elems rooted [] els else clean_elems rooted [''..''] els
         | t # ts \<Rightarrow>
             if t = ''..'' then clean_elems rooted (''..'' # out) els
             else clean_elems rooted ts els)
      else clean_elems rooted (el # out) els)"

definition IsAbs :: "string \<Rightarrow> bool" where
  "IsAbs path = HasPrefix path ''/''"

definition Clean :: "string \<Rightarrow> string" where
  "Clean path =
     (if path = [] then ''.''
      else
        (let rooted = IsAbs path;
             body = strings_Join (clean_elems rooted [] (splitOn CHR ''/'' path)) ''/''
         in if rooted then CHR ''/'' # body
            else if body = [] then ''.'' else body))"

definition Join :: "string list \<Rightarrow> string" where
  "Join elem =
     (case dropWhile (\<lambda>el. el = []) elem of
        [] \<Rightarrow> []
      | el # els \<Rightarrow> Clean (strings_Join (el # els) ''/''))"

section \<open>Errors, the environment and the state of the program\<close>

text \<open>A Go \<open>error\<close> value is its message; \<open>nil\<close> is \<^term>\<open>None\<close>.\<close>

datatype error = errors_New string

fun Error :: "error \<Rightarrow> string" where
  "Error (errors_New s) = s"

definition Abs :: "error + string \<Rightarrow> string \<Rightarrow> error + string" where
  "Abs getwd path =
     (if IsAbs path then Inr (Clean path)
      else (case getwd of Inl err \<Rightarrow> Inl err | Inr wd \<Rightarrow> Inr (Join [wd, path])))"

text \<open>
  What one run of an external command gives back: the two output streams and the error
  of \<open>cmd.Run\<close> or \<open>cmd.Output\<close> (a non-zero exit status or a failure to start).
\<close>

record cmd_result =
  cmd_stdout :: string
  cmd_stderr :: string
  cmd_err :: "error option"

text \<open>A reading of the wall clock, with the fields the program formats.\<close>

record clock =
  Day :: nat
  Month :: nat
  Year :: nat
  Hour :: nat
  Minute :: nat
  UnixMilli :: int

text \<open>
  The answers of the operating system to one call of \<open>writeLog\<close>: the clock, the
  failure of \<open>os.OpenFile\<close> if any, and the failure of \<open>WriteString\<close> if any, with
  the number of bytes that reached the file before it.
\<close>

record wl_env =
  wl_now :: clock
  wl_open :: "error option"
  wl_write :: "(error \<times> nat) option"

text \<open>
  The answers of the operating system to one call of \<open>setWallpaper\<close>: environment
  variables, external commands by their argument vector, the command search path, the
  working directory, and the failures of the operations on the i3 configuration file;
  with them, the case table of the Go library that the program was built with.
\<close>

record os_env =
  caseTable :: "nat \<Rightarrow> nat"
  Getenv :: "string \<Rightarrow> string"
  run_cmd :: "string list \<Rightarrow> cmd_result"
  LookPath :: "string \<Rightarrow> error option"
  Getwd :: "error + string"
  stat_fault :: "error option"
  read_fault :: "error option"
  open_fault :: "error option"
  write_fault :: "(error \<times> nat) option"
  log_env :: wl_env

text \<open>An HTTP request as the program builds it.\<close>

record request =
  Method :: string
  URL :: string
  Header :: "(string \<times> string) list"

text \<open>
  The state: the global \<open>logBuffer\<close>, the regular files by path, what was printed on
  standard output, the messages of \<open>log.Printf\<close>, and the traces of requests sent,
  commands run and seconds slept.
\<close>

record world =
  logBuffer :: string
  files :: "string \<rightharpoonup> string"
  stdout :: string
  stderr :: "string list"
  requests :: "request list"
  commands :: "string list list"
  slept :: nat

definition logBuffer_WriteString :: "string \<Rightarrow> world \<Rightarrow> world" where
  "logBuffer_WriteString s w = w\<lparr>logBuffer := logBuffer w @ s\<rparr>"

definition Print :: "string \<Rightarrow> world \<Rightarrow> world" where
  "Print s w = w\<lparr>stdout := stdout w @ s\<rparr>"

definition Println :: "string \<Rightarrow> world \<Rightarrow> world" where
  "Println s w = Print (s @ nl) w"

definition log_Printf :: "string \<Rightarrow> world \<Rightarrow> world" where
  "log_Printf s w = w\<lparr>stderr := stderr w @ [s]\<rparr>"

definition file_content :: "(string \<rightharpoonup> string) \<Rightarrow> string \<Rightarrow> string" where
  "file_content fs path = (case fs path of None \<Rightarrow> [] | Some c \<Rightarrow> c)"

definition append_file :: "string \<Rightarrow> string \<Rightarrow> world \<Rightarrow> world" where
  "append_file path data w = w\<lparr>files := (files w)(path \<mapsto> file_content (files w) path @ data)\<rparr>"

definition cmd_exec :: "os_env \<Rightarrow> string list \<Rightarrow> world \<Rightarrow> world \<times> cmd_result" where
  "cmd_exec e argv w = (w\<lparr>commands := commands w @ [argv]\<rparr>, run_cmd e argv)"

section \<open>The program\<close>

definition logsDir :: string where
  "logsDir = ''logs''"

definition writeLog :: "wl_env \<Rightarrow> world \<Rightarrow> world \<times> error option" where
  "writeLog e w =
     (let now = wl_now e;
          logFileName = show_nat (Day now) @ ''-'' @ show_nat (Month now) @ ''-''
                        @ show_nat (Year now) @ ''.log'';
          logPath = Join [logsDir, logFileName];
          w1 = logBuffer_WriteString
                 (''----------------- '' @ pad2 (Hour now) @ '':'' @ pad2 (Minute now)
                  @ '' -----------------'' @ nl) w
      in case wl_open e of
           Some err \<Rightarrow> (w1, Some (errors_New (''failed to open log file: '' @ Error err)))
         | None \<Rightarrow>
             (let w2 = append_file logPath [] w1
              in case wl_write e of
                   Some (err, n) \<Rightarrow>
                     (append_file logPath (take n (logBuffer w2)) w2,
                      Some (errors_New (''failed to write to log file: '' @ Error err)))
                 | None \<Rightarrow>
                     ((append_file logPath (logBuffer w2) w2)\<lparr>logBuffer := []\<rparr>, None)))"

text \<open>
  The statement \<open>if err := writeLog(); err != nil { log.Printf("Failed to write log: %v", err) }\<close>,
  which the program repeats at every place where it flushes the log and goes on.
\<close>

definition writeLog_report :: "wl_env \<Rightarrow> world \<Rightarrow> world" where
  "writeLog_report e w =
     (case writeLog e w of
        (w', None) \<Rightarrow> w'
      | (w', Some err) \<Rightarrow> log_Printf (''Failed to write log: '' @ Error err) w')"

definition detectWindowManager :: "os_env \<Rightarrow> world \<Rightarrow> world \<times> string" where
  "detectWindowManager e w =
     (let xdgDesktop = Getenv e ''XDG_CURRENT_DESKTOP'';
          desktopSession = Getenv e ''DESKTOP_SESSION''
      in if Contains (ToLower (caseTable e) xdgDesktop) ''gnome''
            \<or> Contains (ToLower (caseTable e) desktopSession) ''gnome''
         then (w, ''gnome'')
         else if Contains (ToLower (caseTable e) xdgDesktop) ''i3''
                 \<or> Contains (ToLower (caseTable e) desktopSession) ''i3''
         then (w, ''i3'')
         else if Contains (ToLower (caseTable e) xdgDesktop) ''dwm''
                 \<or> Contains (ToLower (caseTable e) desktopSession) ''dwm''
         then (w, ''dwm'')
         else
           (let (w1, r1) = cmd_exec e [''pgrep'', ''-l'', ''dwm''] w
            in if cmd_err r1 = None \<and> Contains (cmd_stdout r1) ''dwm'' then (w1, ''dwm'')
               else
                 (let (w2, r2) = cmd_exec e [''pgrep'', ''-l'', ''i3''] w1
                  in if cmd_err r2 = None \<and> Contains (cmd_stdout r2) ''i3'' then (w2, ''i3'')
                     else (w2, ''unknown''))))"

text \<open>
  Lines 161 to 183: the persistence step of the i3 branch. The configuration file exists
  when \<open>os.Stat\<close> reports no error.
\<close>

definition i3_persist :: "os_env \<Rightarrow> string \<Rightarrow> world \<Rightarrow> world" where
  "i3_persist e absPath w =
     (let configPath = Join [Getenv e ''HOME'', ''.config'', ''i3'', ''config'']
      in if stat_fault e = None \<and> files w configPath \<noteq> None then
           (case read_fault e of
              Some err \<Rightarrow>
                logBuffer_WriteString (''Warning: could not read i3 config: '' @ Error err @ nl) w
            | None \<Rightarrow>
                if \<not> Contains (file_content (files w) configPath) (''feh --bg-scale '' @ absPath)
                then
                  (case open_fault e of
                     Some err \<Rightarrow>
                       logBuffer_WriteString
                         (''Warning: could not append to i3 config: '' @ Error err @ nl) w
                   | None \<Rightarrow>
                       (let fehLine = nl @ ''exec --no-startup-id feh --bg-scale '' @ absPath @ nl
                        in case write_fault e of
                             Some (err, n) \<Rightarrow>
                               logBuffer_WriteString
                                 (''Warning: could not write to i3 config: '' @ Error err @ nl)
                                 (append_file configPath (take n fehLine) w)
                           | None \<Rightarrow>
                               logBuffer_WriteString
                                 (''Added feh command to i3 config for persistence'' @ nl)
                                 (append_file configPath fehLine w)))
                else w)
         else w)"

text \<open>
  The branches of the \<open>switch\<close> of \<open>setWallpaper\<close>. A branch gives \<open>Some err\<close> where
  the source returns the error from inside the branch, and \<^term>\<open>None\<close> where control
  leaves the \<open>switch\<close>.
\<close>

definition setWallpaper_gnome :: "os_env \<Rightarrow> string \<Rightarrow> world \<Rightarrow> world \<times> error option" where
  "setWallpaper_gnome e absPath w =
     (let command = ''gsettings set org.gnome.desktop.background picture-uri file://'' @ absPath;
          w1 = Println (''running: '' @ command) w;
          w2 = logBuffer_WriteString (command @ nl) w1;
          (w3, r) = cmd_exec e [''gsettings'', ''set'', ''org.gnome.desktop.background'',
                                ''picture-uri'', ''file://'' @ absPath] w2
      in case cmd_err r of
           Some err \<Rightarrow>
             (writeLog_report (log_env e) (logBuffer_WriteString (''Error: '' @ Error err @ nl) w3),
              Some (errors_New (''failed to set wallpaper: '' @ Error err)))
         | None \<Rightarrow>
             if cmd_stderr r \<noteq> [] then
               (writeLog_report (log_env e)
                  (logBuffer_WriteString (''stderr: '' @ cmd_stderr r @ nl) w3),
                Some (errors_New (''gsettings stderr: '' @ cmd_stderr r)))
             else
               (logBuffer_WriteString (''stdout: '' @ cmd_stdout r @ nl)
                  (Println (cmd_stdout r) w3),
                None))"

definition setWallpaper_feh :: "os_env \<Rightarrow> string \<Rightarrow> string \<Rightarrow> world \<Rightarrow> world \<times> error option" where
  "setWallpaper_feh e wm absPath w =
     (case LookPath e ''feh'' of
        Some err \<Rightarrow>
          (writeLog_report (log_env e)
             (logBuffer_WriteString
                (''Error: feh not found. Please install feh to set wallpapers in DWM or i3.'' @ nl) w),
           Some (errors_New (''feh not found: '' @ Error err)))
      | None \<Rightarrow>
          (let command = ''feh --bg-scale '' @ absPath;
               w1 = Println (''running: '' @ command) w;
               w2 = logBuffer_WriteString (command @ nl) w1;
               (w3, r) = cmd_exec e [''feh'', ''--bg-scale'', absPath] w2
           in case cmd_err r of
                Some err \<Rightarrow>
                  (writeLog_report (log_env e)
                     (logBuffer_WriteString (''Error: '' @ Error err @ nl) w3),
                   Some (errors_New (''failed to set wallpaper with feh: '' @ Error err)))
              | None \<Rightarrow>
                  if cmd_stderr r \<noteq> [] then
                    (writeLog_report (log_env e)
                       (logBuffer_WriteString (''stderr: '' @ cmd_stderr r @ nl) w3),
                     Some (errors_New (''feh stderr: '' @ cmd_stderr r)))
                  else
                    (let w4 = Println (cmd_stdout r) w3;
                         w5 = logBuffer_WriteString (''stdout: '' @ cmd_stdout r @ nl) w4
                     in (if wm = ''i3'' then i3_persist e absPath w5 else w5, None))))"

definition setWallpaper :: "os_env \<Rightarrow> string \<Rightarrow> string \<Rightarrow> world \<Rightarrow> world \<times> error option" where
  "setWallpaper e wallpaperFileName picturesDir w =
     (let wallpaperPath = Join [picturesDir, wallpaperFileName]
      in case Abs (Getwd e) wallpaperPath of
           Inl err \<Rightarrow>
             (writeLog_report (log_env e)
                (logBuffer_WriteString (''Error getting absolute path: '' @ Error err @ nl) w),
              Some (errors_New (''failed to get absolute path: '' @ Error err)))
         | Inr absPath \<Rightarrow>
             (let (w0, wm) = detectWindowManager e w;
                  w1 = logBuffer_WriteString (''Detected window manager: '' @ wm @ nl) w0;
                  branch =
                    (if wm = ''gnome'' then setWallpaper_gnome e absPath w1
                     else if wm = ''dwm'' \<or> wm = ''i3'' then setWallpaper_feh e wm absPath w1
                     else
                       (writeLog_report (log_env e)
                          (logBuffer_WriteString
                             (''Error: unknown window manager. Supported: gnome, dwm, i3.'' @ nl) w1),
                        Some (errors_New (''unknown window manager: '' @ wm))))
              in case branch of
                   (w2, Some err) \<Rightarrow> (w2, Some err)
                 | (w2, None) \<Rightarrow>
                     (let w3 = logBuffer_WriteString (''Wallpaper Set'' @ nl) w2;
                          w4 = Println ''Wallpaper Set'' w3
                      in writeLog (log_env e) w4)))"

subsection \<open>Pages, requests and the download\<close>

text \<open>
  The query library is outside the program: a parsed document is what \<open>Find\<close> answers
  for a selector, a selection being the list of the matched elements in document order
  and an element the list of its attributes. \<open>Attr\<close> reads the first element of a
  selection and reports whether the attribute exists.
\<close>

type_synonym element = "(string \<times> string) list"

type_synonym selection = "element list"

type_synonym document = "string \<Rightarrow> selection"

definition Attr :: "selection \<Rightarrow> string \<Rightarrow> string \<times> bool" where
  "Attr s attrName =
     (case s of
        [] \<Rightarrow> ([], False)
      | n # _ \<Rightarrow> (case map_of n attrName of None \<Rightarrow> ([], False) | Some val \<Rightarrow> (val, True)))"

definition First :: "selection \<Rightarrow> selection" where
  "First s = take 1 s"

text \<open>
  The answer to one request: the status code and the body. The body of a page is what
  \<open>goquery.NewDocumentFromReader\<close> makes of it, the body of an image its bytes.
\<close>

record 'b response =
  StatusCode :: nat
  Body :: 'b

definition http_NewRequest :: "(string \<Rightarrow> error option) \<Rightarrow> string \<Rightarrow> string \<Rightarrow> error + request" where
  "http_NewRequest parse method url =
     (case parse url of
        Some err \<Rightarrow> Inl err
      | None \<Rightarrow> Inr \<lparr>Method = method, URL = url, Header = []\<rparr>)"

definition Header_Set :: "string \<Rightarrow> string \<Rightarrow> request \<Rightarrow> request" where
  "Header_Set key val req =
     req\<lparr>Header := (key, val) # filter (\<lambda>h. fst h \<noteq> key) (Header req)\<rparr>"

definition client_Do :: "request \<Rightarrow> world \<Rightarrow> world" where
  "client_Do req w = w\<lparr>requests := requests w @ [req]\<rparr>"

definition userAgent :: string where
  "userAgent = ''Mozilla/5.0 (X11; Linux x86_64; rv:109.0) Gecko/20100101 Firefox/115.0''"

definition acceptHeader :: string where
  "acceptHeader = ''text/html,application/xhtml+xml,application/xml;q=0.9,image/webp,*/*;q=0.8''"

text \<open>
  The answers of the network and of the operating system to one call of
  \<open>downloadWallpaper\<close>: the verdict of the URL parser inside \<open>http.NewRequest\<close>, the
  answers to the two requests, the clock, the failure of \<open>os.Create\<close> if any, the
  failure of \<open>io.Copy\<close> if any with the number of bytes written before it, and the
  answers to the call of \<open>setWallpaper\<close>.
\<close>

record dl_env =
  url_Parse :: "string \<Rightarrow> error option"
  page_Do :: "error + (error + document) response"
  dl_now :: clock
  image_Do :: "error + string response"
  create_fault :: "error option"
  copy_fault :: "(error \<times> nat) option"
  set_env :: os_env

text \<open>Lines 224 to 236: the chain of selectors.\<close>

definition extractImageSource :: "document \<Rightarrow> string \<times> bool" where
  "extractImageSource doc =
     (let (src, exists) = Attr (doc ''.scrollbox img'') ''data-cfsrc'';
          (src, exists) = (if \<not> exists then Attr (doc ''#wallpaper'') ''src'' else (src, exists));
          (src, exists) = (if \<not> exists then Attr (doc ''img#showcase-wallpaper'') ''src''
                           else (src, exists))
      in (src, exists))"

text \<open>
  Lines 241 to 246: the line that the body of \<open>Each\<close> prints and logs for the element
  of index \<open>i\<close>, and the loop over the selection.
\<close>

definition img_line :: "nat \<Rightarrow> element \<Rightarrow> string" where
  "img_line i s =
     (let imgSrc = fst (Attr [s] ''src'');
          imgDataSrc = fst (Attr [s] ''data-cfsrc'')
      in ''img '' @ show_nat i @ '': src='' @ imgSrc @ '', data-cfsrc='' @ imgDataSrc @ nl)"

fun dump_imgs :: "nat \<Rightarrow> selection \<Rightarrow> world \<Rightarrow> world" where
  "dump_imgs i [] w = w"
| "dump_imgs i (s # ss) w =
     dump_imgs (Suc i) ss (logBuffer_WriteString (img_line i s) (Print (img_line i s) w))"

text \<open>Line 255: the name of the downloaded file.\<close>

definition wallpaperFileName :: "clock \<Rightarrow> string \<Rightarrow> string" where
  "wallpaperFileName now wallpaperID = show_int (UnixMilli now) @ ''-'' @ wallpaperID @ ''.png''"

text \<open>Lines 250 to 291: what \<open>downloadWallpaper\<close> does once the image source is found.\<close>

definition download_image :: "dl_env \<Rightarrow> document \<Rightarrow> string \<Rightarrow> string \<Rightarrow> world \<Rightarrow> world \<times> error option" where
  "download_image e doc src picturesDir w =
     (let (wallpaperID, exists) = Attr (doc ''.scrollbox img'') ''data-wallpaper-id'';
          wallpaperID = (if \<not> exists then ''unknown'' else wallpaperID);
          fileName = wallpaperFileName (dl_now e) wallpaperID;
          filePath = Join [picturesDir, fileName]
      in case http_NewRequest (url_Parse e) ''GET'' src of
           Inl err \<Rightarrow> (w, Some (errors_New (''failed to create image request: '' @ Error err)))
         | Inr imgReq0 \<Rightarrow>
             (let imgReq = Header_Set ''User-Agent'' userAgent imgReq0;
                  w1 = client_Do imgReq w
              in case image_Do e of
                   Inl err \<Rightarrow> (w1, Some (errors_New (''failed to download wallpaper: '' @ Error err)))
                 | Inr imgResp \<Rightarrow>
                     if StatusCode imgResp \<noteq> 200 then
                       (w1, Some (errors_New (''unexpected image download status code: ''
                                              @ show_nat (StatusCode imgResp))))
                     else
                       (let w2 = Println ''Starting Download'' w1;
                            w3 = logBuffer_WriteString (''Starting Download'' @ nl) w2
                        in case create_fault e of
                             Some err \<Rightarrow>
                               (w3, Some (errors_New (''failed to create image file: '' @ Error err)))
                           | None \<Rightarrow>
                               (let w4 = w3\<lparr>files := (files w3)(filePath \<mapsto> [])\<rparr>
                                in case copy_fault e of
                                     Some (err, n) \<Rightarrow>
                                       (append_file filePath (take n (Body imgResp)) w4,
                                        Some (errors_New (''failed to save image: '' @ Error err)))
                                   | None \<Rightarrow>
                                       (let w5 = append_file filePath (Body imgResp) w4;
                                            w6 = Println ''Download done'' w5;
                                            w7 = logBuffer_WriteString (''Download done'' @ nl) w6
                                        in setWallpaper (set_env e) fileName picturesDir w7)))))"

definition downloadWallpaper :: "dl_env \<Rightarrow> string \<Rightarrow> string \<Rightarrow> world \<Rightarrow> world \<times> error option" where
  "downloadWallpaper e url picturesDir w =
     (case http_NewRequest (url_Parse e) ''GET'' url of
        Inl err \<Rightarrow> (w, Some (errors_New (''failed to create request: '' @ Error err)))
      | Inr req0 \<Rightarrow>
          (let req1 = Header_Set ''User-Agent'' userAgent req0;
               req = Header_Set ''Accept'' acceptHeader req1;
               w1 = client_Do req w
           in case page_Do e of
                Inl err \<Rightarrow> (w1, Some (errors_New (''failed to fetch wallpaper page: '' @ Error err)))
              | Inr resp \<Rightarrow>
                  if StatusCode resp \<noteq> 200 then
                    (w1, Some (errors_New (''unexpected status code: '' @ show_nat (StatusCode resp))))
                  else
                    (case Body resp of
                       Inl err \<Rightarrow> (w1, Some (errors_New (''failed to parse HTML: '' @ Error err)))
                     | Inr doc \<Rightarrow>
                         (let (src, exists) = extractImageSource doc
                          in if \<not> exists then
                               (let w2 = Println ''No image source found. Dumping img tags:'' w1;
                                    w3 = logBuffer_WriteString
                                           (''No image source found. Dumping img tags:'' @ nl) w2;
                                    w4 = dump_imgs 0 (doc ''img'') w3
                                in (w4, Some (errors_New ''wallpaper image source not found'')))
                             else download_image e doc src picturesDir w1))))"

record fetch_env =
  fetch_Parse :: "string \<Rightarrow> error option"
  fetch_Do :: "error + (error + document) response"

definition fetchRandomWallpaperURL :: "fetch_env \<Rightarrow> world \<Rightarrow> world \<times> (error + string)" where
  "fetchRandomWallpaperURL e w =
     (case http_NewRequest (fetch_Parse e) ''GET'' ''https://wallhaven.cc/random'' of
        Inl err \<Rightarrow> (w, Inl (errors_New (''failed to create request: '' @ Error err)))
      | Inr req0 \<Rightarrow>
          (let req = Header_Set ''User-Agent'' userAgent req0;
               w1 = client_Do req w
           in case fetch_Do e of
                Inl err \<Rightarrow> (w1, Inl (errors_New (''failed to fetch random page: '' @ Error err)))
              | Inr resp \<Rightarrow>
                  if StatusCode resp \<noteq> 200 then
                    (w1, Inl (errors_New (''unexpected status code: '' @ show_nat (StatusCode resp))))
                  else
                    (case Body resp of
                       Inl err \<Rightarrow>
                         (w1, Inl (errors_New (''failed to parse random page HTML: '' @ Error err)))
                     | Inr doc \<Rightarrow>
                         (let (src, exists) = Attr (First (doc ''.thumb a'')) ''href''
                          in if \<not> exists then
                               (w1, Inl (errors_New ''wallpaper random URL not found''))
                             else (w1, Inr src)))))"

subsection \<open>The session loop\<close>

text \<open>
  The answers to one turn of the loop of \<open>main\<close>: those to the fetch, those to the
  download, those to the flush of the log that ends the turn, and the line the scanner
  reads at the prompt (empty at the end of the input). The case table is the one of the
  turn's \<open>os_env\<close>: it belongs to the program, not to the turn.
\<close>

record iter_env =
  it_fetch :: fetch_env
  it_download :: dl_env
  it_log :: wl_env
  it_line :: string

datatype outcome = Break | Continue

definition Sleep :: "nat \<Rightarrow> world \<Rightarrow> world" where
  "Sleep seconds w = w\<lparr>slept := slept w + seconds\<rparr>"

text \<open>Lines 353 to 397: the body of the loop.\<close>

definition iteration :: "iter_env \<Rightarrow> string \<Rightarrow> world \<Rightarrow> world \<times> outcome" where
  "iteration e picturesDir w =
     (case fetchRandomWallpaperURL (it_fetch e) w of
        (w1, Inl err) \<Rightarrow>
          (let w2 = Print (''Error fetching random wallpaper URL: '' @ Error err @ nl) w1;
               w3 = logBuffer_WriteString
                      (''Error fetching random wallpaper URL: '' @ Error err @ nl) w2;
               w4 = writeLog_report (it_log e) w3
           in (Sleep 2 w4, Continue))
      | (w1, Inr src) \<Rightarrow>
          (let w2 = Println src w1;
               w3 = logBuffer_WriteString (src @ nl) w2
           in case downloadWallpaper (it_download e) src picturesDir w3 of
                (w4, Some err) \<Rightarrow>
                  (let w5 = Print (''Error downloading wallpaper: '' @ Error err @ nl) w4;
                       w6 = logBuffer_WriteString
                              (''Error downloading wallpaper: '' @ Error err @ nl) w5;
                       w7 = writeLog_report (it_log e) w6
                   in (Sleep 2 w7, Continue))
              | (w4, None) \<Rightarrow>
                  (let w5 = Print ''Do you like this wallpaper? (y/n): '' w4;
                       response = ToLower (caseTable (set_env (it_download e)))
                                    (TrimSpace (it_line e))
                   in if response = ''y'' then
                        (let w6 = Println ''Keeping this wallpaper. Exiting.'' w5;
                             w7 = logBuffer_WriteString
                                    (''User chose to keep wallpaper. Exiting.'' @ nl) w6
                         in (writeLog_report (it_log e) w7, Break))
                      else
                        (let w6 = Println ''Fetching next wallpaper...'' w5;
                             w7 = logBuffer_WriteString (''User chose next wallpaper.'' @ nl) w6
                         in (writeLog_report (it_log e) w7, Continue)))))"

text \<open>
  The loop \<open>for { ... }\<close> over the answers to its successive turns. It ends only at a
  \<open>break\<close>; when the answers run out before one, the program is still in the loop
  and the result is \<^term>\<open>None\<close>.
\<close>

fun session_loop :: "iter_env list \<Rightarrow> string \<Rightarrow> world \<Rightarrow> world option" where
  "session_loop [] picturesDir w = None"
| "session_loop (e # es) picturesDir w =
     (case iteration e picturesDir w of
        (w', Break) \<Rightarrow> Some w'
      | (w', Continue) \<Rightarrow> session_loop es picturesDir w')"

text \<open>
  The answers to \<open>main\<close>: the line read at the first prompt, the failures of the two
  \<open>os.MkdirAll\<close> if any, the turns of the loop and the working directory at the end.
\<close>

record main_env =
  dir_line :: string
  mkdir_logs :: "error option"
  mkdir_pictures :: "error option"
  turns :: "iter_env list"
  final_wd :: "error + string"

text \<open>
  Lines 326 to 350: what \<open>main\<close> does before the loop. It gives the pictures directory
  and the state in which the loop starts, or the state and the exit status 1 when
  \<open>log.Fatalf\<close> ends the program.
\<close>

definition startup :: "main_env \<Rightarrow> world \<Rightarrow> (world \<times> nat) + (string \<times> world)" where
  "startup e w =
     (let w1 = Println ''Wallhaven Download Started'' w;
          w2 = Print ''Enter the directory path to store wallpapers (e.g., /home/user/Pictures): '' w1;
          picturesDir = TrimSpace (dir_line e);
          w3 = (if picturesDir = [] then
                  logBuffer_WriteString (''No directory provided, using default: ./Pictures'' @ nl)
                    (Println ''No directory provided, using default: ./Pictures'' w2)
                else w2);
          picturesDir = (if picturesDir = [] then ''./Pictures'' else picturesDir)
      in case mkdir_logs e of
           Some err \<Rightarrow> Inl (log_Printf (''Failed to create logs directory: '' @ Error err) w3, 1)
         | None \<Rightarrow>
             (case mkdir_pictures e of
                Some err \<Rightarrow>
                  Inl (log_Printf (''Failed to create pictures directory: '' @ Error err) w3, 1)
              | None \<Rightarrow>
                  (let w4 = Print (''Using pictures directory: '' @ picturesDir @ nl) w3;
                       w5 = logBuffer_WriteString
                              (''Using pictures directory: '' @ picturesDir @ nl) w4
                   in Inr (picturesDir, w5))))"

text \<open>
  The whole program. The result is the exit status, \<^term>\<open>None\<close> while the program is
  still in its loop.
\<close>

definition main :: "main_env \<Rightarrow> world \<Rightarrow> world \<times> nat option" where
  "main e w =
     (case startup e w of
        Inl (w', status) \<Rightarrow> (w', Some status)
      | Inr (picturesDir, w5) \<Rightarrow>
          (case session_loop (turns e) picturesDir w5 of
             None \<Rightarrow> (w5, None)
           | Some w6 \<Rightarrow>
               (case final_wd e of
                  Inl err \<Rightarrow>
                    (Println [] (log_Printf (''Failed to get working directory: '' @ Error err) w6),
                     Some 0)
                | Inr wd \<Rightarrow> (Println wd w6, Some 0))))"

section \<open>Notions used to state the properties\<close>

text \<open>
  Case-insensitive substring matching in the words of the specification, for a value of
  ASCII bytes: some window of the value, with its letters A to Z lowered, is the name
  looked for.
\<close>

definition toLower_char :: "char \<Rightarrow> char" where
  "toLower_char c =
     (if (65::nat) \<le> of_char c \<and> of_char c \<le> (90::nat) then char_of (of_char c + (32::nat)) else c)"

fun ci_substring :: "string \<Rightarrow> string \<Rightarrow> bool" where
  "ci_substring name [] = (name = [])"
| "ci_substring name (c # cs) =
     (map toLower_char (take (length name) (c # cs)) = name \<or> ci_substring name cs)"

definition is_ascii :: "string \<Rightarrow> bool" where
  "is_ascii s = list_all (\<lambda>c. (of_char c :: nat) < 128) s"




subsection \<open>Concrete environments\<close>

definition initial_world :: world where
  "initial_world = \<lparr>logBuffer = [], files = Map.empty, stdout = [], stderr = [],
                      requests = [], commands = [], slept = 0\<rparr>"

definition example_clock :: clock where
  "example_clock = \<lparr>Day = 3, Month = 11, Year = 2026, Hour = 9, Minute = 5,
                      UnixMilli = 1793696700123\<rparr>"

definition example_log :: wl_env where
  "example_log = \<lparr>wl_now = example_clock, wl_open = None, wl_write = None\<rparr>"

definition ok_result :: "string \<Rightarrow> cmd_result" where
  "ok_result out = \<lparr>cmd_stdout = out, cmd_stderr = [], cmd_err = None\<rparr>"

definition failed_result :: cmd_result where
  "failed_result =
     \<lparr>cmd_stdout = [], cmd_stderr = [], cmd_err = Some (errors_New ''exit status 1'')\<rparr>"

text \<open>
  The case table at the runes the examples use: \<open>U+0130\<close> (capital I with a dot above) has
  the lower-case form i and \<open>U+212A\<close> (the Kelvin sign) the form k; the examples use no other
  rune above ASCII that has a lower-case form.
\<close>

definition example_caseTable :: "nat \<Rightarrow> nat" where
  "example_caseTable r = (if r = 304 then 105 else if r = 8490 then 107 else r)"

definition example_os :: "string \<Rightarrow> string \<Rightarrow> (string list \<Rightarrow> cmd_result) \<Rightarrow> os_env" where
  "example_os xdg session run =
     \<lparr>caseTable = example_caseTable,
      Getenv = (\<lambda>key. if key = ''XDG_CURRENT_DESKTOP'' then xdg
                       else if key = ''DESKTOP_SESSION'' then session
                       else if key = ''HOME'' then ''/home/u'' else []),
      run_cmd = run,
      LookPath = (\<lambda>file. None),
      Getwd = Inr ''/home/u/w'',
      stat_fault = None, read_fault = None, open_fault = None, write_fault = None,
      log_env = example_log\<rparr>"

definition pgrep_finds :: "string \<Rightarrow> string list \<Rightarrow> cmd_result" where
  "pgrep_finds name argv =
     (if argv = [''pgrep'', ''-l'', name] then ok_result (''812 '' @ name @ nl)
      else if hd argv = ''pgrep'' then failed_result
      else ok_result [])"

definition doc_lazy_empty :: document where
  "doc_lazy_empty sel =
     (if sel = ''.scrollbox img'' then [[(''data-cfsrc'', []), (''data-wallpaper-id'', ''zy3kqw'')]]
      else if sel = ''#wallpaper'' then
        [[(''id'', ''wallpaper''), (''src'', ''https://w.wallhaven.cc/full/zy/wallhaven-zy3kqw.png'')]]
      else [])"

definition doc_showcase :: document where
  "doc_showcase sel =
     (if sel = ''.scrollbox img'' then [[(''src'', ''/thumb.png'')]]
      else if sel = ''img#showcase-wallpaper'' then
        [[(''id'', ''showcase-wallpaper''), (''src'', ''https://w.wallhaven.cc/full/zy/wallhaven-zy3kqw.png'')]]
      else [])"

definition doc_wallpaper_id :: document where
  "doc_wallpaper_id sel =
     (if sel = ''#wallpaper'' then [[(''id'', ''wallpaper''), (''src'', ''https://w.wallhaven.cc/a.png'')]]
      else if sel = ''img#showcase-wallpaper'' then [[(''src'', ''https://w.wallhaven.cc/b.png'')]]
      else [])"

definition doc_no_source :: document where
  "doc_no_source sel =
     (if sel = ''img'' then [[(''src'', ''/logo.png'')], [(''alt'', ''x''), (''data-cfsrc'', ''/lazy.png'')]]
      else if sel = ''#wallpaper'' then [[(''class'', ''empty'')]]
      else [])"

definition example_dl :: "document \<Rightarrow> (error \<times> nat) option \<Rightarrow> os_env \<Rightarrow> dl_env" where
  "example_dl doc fault os =
     \<lparr>url_Parse = (\<lambda>url. None),
      page_Do = Inr \<lparr>StatusCode = 200, Body = Inr doc\<rparr>,
      dl_now = example_clock,
      image_Do = Inr \<lparr>StatusCode = 200, Body = ''PNG-IMAGE-BYTES''\<rparr>,
      create_fault = None,
      copy_fault = fault,
      set_env = os\<rparr>"

definition tool_warns :: "string list \<Rightarrow> cmd_result" where
  "tool_warns argv = \<lparr>cmd_stdout = [], cmd_stderr = ''warning: cannot open display'', cmd_err = None\<rparr>"

definition doc_listing :: document where
  "doc_listing sel =
     (if sel = ''.thumb a'' then
        [[(''class'', ''preview''), (''href'', ''https://wallhaven.cc/w/zy3kqw'')],
         [(''class'', ''preview''), (''href'', ''https://wallhaven.cc/w/9dkeqd'')]]
      else [])"

definition doc_detail :: document where
  "doc_detail sel =
     (if sel = ''.scrollbox img'' \<or> sel = ''img'' \<or> sel = ''#wallpaper'' then
        [[(''id'', ''wallpaper''),
          (''data-cfsrc'', ''https://w.wallhaven.cc/full/zy/wallhaven-zy3kqw.png''),
          (''data-wallpaper-id'', ''zy3kqw'')]]
      else [])"

definition example_fetch :: fetch_env where
  "example_fetch =
     \<lparr>fetch_Parse = (\<lambda>url. None), fetch_Do = Inr \<lparr>StatusCode = 200, Body = Inr doc_listing\<rparr>\<rparr>"

definition gnome_os :: os_env where
  "gnome_os = example_os ''ubuntu:GNOME'' [] (\<lambda>argv. ok_result [])"

definition example_turn :: "os_env \<Rightarrow> (error \<times> nat) option \<Rightarrow> string \<Rightarrow> iter_env" where
  "example_turn os fault line =
     \<lparr>it_fetch = example_fetch, it_download = example_dl doc_detail fault os,
      it_log = example_log, it_line = line\<rparr>"

definition gsettings_example :: "string list" where
  "gsettings_example =
     [''gsettings'', ''set'', ''org.gnome.desktop.background'', ''picture-uri'',
      ''file:///home/u/w/Pictures/1793696700123-zy3kqw.png'']"

definition log_fails :: "os_env \<Rightarrow> os_env" where
  "log_fails os = os\<lparr>log_env := example_log\<lparr>wl_open := Some (errors_New ''permission denied'')\<rparr>\<rparr>"

definition i3_os :: os_env where
  "i3_os = example_os [] [] (pgrep_finds ''i3'')"

definition config_world :: world where
  "config_world =
     initial_world\<lparr>files := [''/home/u/.config/i3/config'' \<mapsto> ''# i3 config file'' @ nl]\<rparr>"



definition example_main :: "iter_env list \<Rightarrow> main_env" where
  "example_main ts =
     \<lparr>dir_line = [], mkdir_logs = None, mkdir_pictures = None, turns = ts,
      final_wd = Inr ''/home/u/w''\<rparr>"

definition persisted_world :: world where
  "persisted_world =
     initial_world\<lparr>files := [''/home/u/.config/i3/config'' \<mapsto>
        ''exec --no-startup-id feh --bg-scale /home/u/w/Pictures/old.png'' @ nl]\<rparr>"

section \<open>Auxiliary facts\<close>

declare show_nat.simps [simp del]

declare TrimRightFunc.simps [simp del]

subsection \<open>Substrings and the case of letters\<close>

lemma HasPrefix_take: "HasPrefix s p \<longleftrightarrow> take (length p) s = p"
  by (induction s p rule: HasPrefix.induct) auto

lemma Contains_append: "Contains s substr \<longleftrightarrow> (\<exists>pre post. s = pre @ substr @ post)"
proof (induction s)
  case Nil
  then show ?case by simp
next
  case (Cons c cs)
  have "HasPrefix (c # cs) substr \<longleftrightarrow> (\<exists>post. c # cs = substr @ post)"
    unfolding HasPrefix_take by (metis append_eq_conv_conj append_take_drop_id)
  moreover have "(\<exists>pre post. c # cs = pre @ substr @ post) \<longleftrightarrow>
      (\<exists>post. c # cs = substr @ post) \<or> (\<exists>pre post. cs = pre @ substr @ post)"
  proof
    assume "\<exists>pre post. c # cs = pre @ substr @ post"
    then obtain pre post where eq: "c # cs = pre @ substr @ post" by blast
    show "(\<exists>post. c # cs = substr @ post) \<or> (\<exists>pre post. cs = pre @ substr @ post)"
    proof (cases pre)
      case Nil
      with eq show ?thesis by auto
    next
      case (Cons a pre')
      with eq have "cs = pre' @ substr @ post" by simp
      then show ?thesis by blast
    qed
  next
    assume "(\<exists>post. c # cs = substr @ post) \<or> (\<exists>pre post. cs = pre @ substr @ post)"
    then show "\<exists>pre post. c # cs = pre @ substr @ post"
    proof
      assume "\<exists>post. c # cs = substr @ post"
      then show ?thesis by (metis append_Nil)
    next
      assume "\<exists>pre post. cs = pre @ substr @ post"
      then show ?thesis by (metis append_Cons)
    qed
  qed
  ultimately show ?case using Cons.IH by simp
qed

lemma Contains_lowered: "Contains (map toLower_char v) name \<longleftrightarrow> ci_substring name v"
proof (induction v)
  case Nil
  then show ?case by simp
next
  case (Cons c cs)
  have "HasPrefix (map toLower_char (c # cs)) name
      \<longleftrightarrow> map toLower_char (take (length name) (c # cs)) = name"
    by (simp only: HasPrefix_take take_map)
  then show ?case
    using Cons by (simp del: ci_substring.simps add: ci_substring.simps(2)[of name c cs])
qed

lemma DecodeRune_ascii: "(of_char c :: nat) < 128 \<Longrightarrow> DecodeRune (c # cs) = (of_char c, 1)"
  by (simp add: DecodeRune_def Let_def)

lemma range_runes_ascii:
  "\<forall>c\<in>set s. (of_char c :: nat) < 128 \<Longrightarrow> range_runes 0 s = map of_char s"
  by (induction s) (simp_all add: DecodeRune_ascii)

lemma EncodeRune_lower_ascii:
  "(of_char c :: nat) < 128 \<Longrightarrow> EncodeRune (unicode_ToLower tbl (of_char c)) = [toLower_char c]"
  by (simp add: EncodeRune_def unicode_ToLower_def toLower_char_def)

lemma ToLower_ascii:
  assumes "is_ascii s"
  shows "ToLower tbl s = map toLower_char s"
proof -
  from assms have a: "\<forall>c\<in>set s. (of_char c :: nat) < 128"
    by (simp add: is_ascii_def list_all_iff)
  have "concat (map (\<lambda>r. EncodeRune (unicode_ToLower tbl r)) (map of_char s))
      = map toLower_char s"
    using a by (induction s) (simp_all add: EncodeRune_lower_ascii)
  with a show ?thesis by (simp only: ToLower_def range_runes_ascii)
qed

lemmas string_simps = ToLower_def DecodeRune_def EncodeRune_def unicode_ToLower_def
  TrimSpace_def IsSpace_def DecodeLastRune_def lastRuneStart_def RuneStart_def RuneError_def
  TrimRightFunc.simps Let_def char_of_eq_iff

lemmas eval_simps = ToLower_def DecodeRune_def EncodeRune_def unicode_ToLower_def Let_def
  example_caseTable_def char_of_eq_iff example_os_def pgrep_finds_def
  ok_result_def failed_result_def initial_world_def

subsection \<open>Attributes\<close>

lemma Attr_exists: "snd (Attr s attrName) \<longleftrightarrow> s \<noteq> [] \<and> attrName \<in> fst ` set (hd s)"
proof (cases s)
  case Nil
  then show ?thesis by (simp add: Attr_def)
next
  case (Cons el rest)
  have "snd (Attr s attrName) \<longleftrightarrow> map_of el attrName \<noteq> None"
    using Cons by (simp add: Attr_def split: option.splits)
  then show ?thesis
    using Cons by (simp add: map_of_eq_None_iff)
qed

subsection \<open>Effects of the primitive operations\<close>

lemma logBuffer_simps:
  "logBuffer (logBuffer_WriteString s w) = logBuffer w @ s"
  "logBuffer (Print s w) = logBuffer w"
  "logBuffer (Println s w) = logBuffer w"
  "logBuffer (log_Printf s w) = logBuffer w"
  "logBuffer (client_Do req w) = logBuffer w"
  "logBuffer (Sleep n w) = logBuffer w"
  "logBuffer (append_file p d w) = logBuffer w"
  by (simp_all add: logBuffer_WriteString_def Print_def Println_def log_Printf_def client_Do_def
        Sleep_def append_file_def)

lemma files_simps:
  "files (logBuffer_WriteString s w) = files w"
  "files (Print s w) = files w"
  "files (Println s w) = files w"
  "files (log_Printf s w) = files w"
  "files (client_Do req w) = files w"
  "files (Sleep n w) = files w"
  "files (append_file p d w) = (files w)(p \<mapsto> file_content (files w) p @ d)"
  by (simp_all add: logBuffer_WriteString_def Print_def Println_def log_Printf_def client_Do_def
        Sleep_def append_file_def)

lemma stdout_simps:
  "stdout (logBuffer_WriteString s w) = stdout w"
  "stdout (Print s w) = stdout w @ s"
  "stdout (Println s w) = stdout w @ s @ nl"
  "stdout (log_Printf s w) = stdout w"
  "stdout (client_Do req w) = stdout w"
  "stdout (Sleep n w) = stdout w"
  "stdout (append_file p d w) = stdout w"
  by (simp_all add: logBuffer_WriteString_def Print_def Println_def log_Printf_def client_Do_def
        Sleep_def append_file_def)

lemma requests_simps:
  "requests (logBuffer_WriteString s w) = requests w"
  "requests (Print s w) = requests w"
  "requests (Println s w) = requests w"
  "requests (log_Printf s w) = requests w"
  "requests (client_Do req w) = requests w @ [req]"
  "requests (Sleep n w) = requests w"
  "requests (append_file p d w) = requests w"
  by (simp_all add: logBuffer_WriteString_def Print_def Println_def log_Printf_def client_Do_def
        Sleep_def append_file_def)

subsection \<open>The dump of the images\<close>

lemma upt_0_Suc_map: "[0..<Suc n] = 0 # map Suc [0..<n]"
  by (simp add: upt_conv_Cons map_Suc_upt del: upt_Suc)

lemma dump_imgs_logBuffer:
  "logBuffer (dump_imgs i ss w)
     = logBuffer w @ concat (map (\<lambda>k. img_line (i + k) (ss ! k)) [0..<length ss])"
proof (induction ss arbitrary: i w)
  case Nil
  then show ?case by simp
next
  case (Cons s ss)
  show ?case
    unfolding dump_imgs.simps Cons.IH length_Cons upt_0_Suc_map
    by (simp add: logBuffer_simps comp_def)
qed

lemma dump_imgs_files: "files (dump_imgs i ss w) = files w"
  by (induction ss arbitrary: i w) (simp_all add: files_simps)

lemma dump_imgs_requests: "requests (dump_imgs i ss w) = requests w"
  by (induction ss arbitrary: i w) (simp_all add: requests_simps)

lemma img_line_attrs:
  "img_line i el = ''img '' @ show_nat i @ '': src=''
     @ (case map_of el ''src'' of None \<Rightarrow> [] | Some v \<Rightarrow> v) @ '', data-cfsrc=''
     @ (case map_of el ''data-cfsrc'' of None \<Rightarrow> [] | Some v \<Rightarrow> v) @ nl"
  by (simp add: img_line_def Attr_def split: option.splits)

lemma concat_map_upt_split:
  assumes "i < n"
  shows "concat (map f [0..<n]) = concat (map f [0..<i]) @ f i @ concat (map f [Suc i..<n])"
proof -
  have "[0..<n] = [0..<i] @ i # [Suc i..<n]"
    using assms by (metis le_add1 less_imp_add_positive plus_nat.add_0 upt_add_eq_append upt_conv_Cons)
  then show ?thesis by simp
qed

subsection \<open>The flush of the log and the detector\<close>

lemma commands_simps:
  "commands (logBuffer_WriteString s w) = commands w"
  "commands (Print s w) = commands w"
  "commands (Println s w) = commands w"
  "commands (log_Printf s w) = commands w"
  "commands (client_Do req w) = commands w"
  "commands (Sleep n w) = commands w"
  "commands (append_file p d w) = commands w"
  by (simp_all add: logBuffer_WriteString_def Print_def Println_def log_Printf_def client_Do_def
        Sleep_def append_file_def)

lemma writeLog_result:
  "snd (writeLog e w) =
     (case wl_open e of
        Some err \<Rightarrow> Some (errors_New (''failed to open log file: '' @ Error err))
      | None \<Rightarrow>
          (case wl_write e of
             Some (err, n) \<Rightarrow> Some (errors_New (''failed to write to log file: '' @ Error err))
           | None \<Rightarrow> None))"
  by (simp add: writeLog_def Let_def split: option.splits)

lemma writeLog_frame:
  "requests (fst (writeLog e w)) = requests w"
  "commands (fst (writeLog e w)) = commands w"
  "stdout (fst (writeLog e w)) = stdout w"
  by (simp_all add: writeLog_def Let_def requests_simps commands_simps stdout_simps
        split: option.splits)

lemma writeLog_report_frame:
  "requests (writeLog_report e w) = requests w"
  "commands (writeLog_report e w) = commands w"
  "stdout (writeLog_report e w) = stdout w"
  using writeLog_frame [of e w]
  by (auto simp: writeLog_report_def requests_simps commands_simps stdout_simps
        split: prod.splits option.splits)

lemma detectWindowManager_frame:
  "logBuffer (fst (detectWindowManager e w)) = logBuffer w"
  "files (fst (detectWindowManager e w)) = files w"
  "requests (fst (detectWindowManager e w)) = requests w"
  "stdout (fst (detectWindowManager e w)) = stdout w"
  by (simp_all add: detectWindowManager_def Let_def cmd_exec_def)

lemma example_absPath:
  "Abs (Inr ''/home/u/w'') (Join [''./Pictures'', ''1793696700123-zy3kqw.png''])
     = Inr ''/home/u/w/Pictures/1793696700123-zy3kqw.png''"
  by (simp add: Abs_def Join_def Clean_def IsAbs_def)

subsection \<open>Decimal numerals\<close>











subsection \<open>Files are kept\<close>












lemma i3_persist_frame:
  "requests (i3_persist e absPath w) = requests w"
  "commands (i3_persist e absPath w) = commands w"
  "stdout (i3_persist e absPath w) = stdout w"
  by (auto simp: i3_persist_def Let_def requests_simps commands_simps stdout_simps
        split: option.splits)

lemma cmd_exec_frame:
  "files (fst (cmd_exec e argv w)) = files w"
  "requests (fst (cmd_exec e argv w)) = requests w"
  "stdout (fst (cmd_exec e argv w)) = stdout w"
  "logBuffer (fst (cmd_exec e argv w)) = logBuffer w"
  "snd (cmd_exec e argv w) = run_cmd e argv"
  by (simp_all add: cmd_exec_def)


lemma setWallpaper_gnome_requests:
  "requests (fst (setWallpaper_gnome e absPath v)) = requests v"
  by (auto simp: setWallpaper_gnome_def Let_def case_prod_beta requests_simps cmd_exec_frame
        writeLog_report_frame split: option.splits)


lemma setWallpaper_feh_requests:
  "requests (fst (setWallpaper_feh e wm absPath v)) = requests v"
  by (auto simp: setWallpaper_feh_def Let_def case_prod_beta requests_simps cmd_exec_frame
        writeLog_report_frame i3_persist_frame split: option.splits)



lemma setWallpaper_requests:
  "requests (fst (setWallpaper e fileName picturesDir v)) = requests v"
proof (cases "Abs (Getwd e) (Join [picturesDir, fileName])")
  case (Inl err)
  then show ?thesis
    by (simp add: setWallpaper_def Let_def requests_simps writeLog_report_frame)
next
  case (Inr absPath)
  obtain w0 wm where dw: "detectWindowManager e v = (w0, wm)"
    by (cases "detectWindowManager e v")
  have w0: "requests w0 = requests v"
    using detectWindowManager_frame(3) [of e v] by (simp add: dw)
  define w1 where "w1 = logBuffer_WriteString (''Detected window manager: '' @ wm @ nl) w0"
  define branch where "branch =
     (if wm = ''gnome'' then setWallpaper_gnome e absPath w1
      else if wm = ''dwm'' \<or> wm = ''i3'' then setWallpaper_feh e wm absPath w1
      else (writeLog_report (log_env e)
              (logBuffer_WriteString
                 (''Error: unknown window manager. Supported: gnome, dwm, i3.'' @ nl) w1),
            Some (errors_New (''unknown window manager: '' @ wm))))"
  have b: "requests (fst branch) = requests v"
    unfolding branch_def
    by (simp add: setWallpaper_gnome_requests setWallpaper_feh_requests writeLog_report_frame
          requests_simps w1_def w0)
  have eq: "setWallpaper e fileName picturesDir v =
      (case branch of
         (w2, Some err) \<Rightarrow> (w2, Some err)
       | (w2, None) \<Rightarrow>
           writeLog (log_env e)
             (Println ''Wallpaper Set'' (logBuffer_WriteString (''Wallpaper Set'' @ nl) w2)))"
    unfolding setWallpaper_def Let_def branch_def w1_def
    by (simp only: Inr dw sum.case prod.case)
  obtain w2 r where br: "branch = (w2, r)" by (cases branch)
  with b have w2: "requests w2 = requests v" by simp
  show ?thesis
    unfolding eq br using w2
    by (cases r) (simp_all add: writeLog_frame requests_simps)
qed






subsection \<open>The concrete environments, evaluated\<close>

lemma example_fetch_run:
  "fetchRandomWallpaperURL example_fetch w
     = (client_Do \<lparr>Method = ''GET'', URL = ''https://wallhaven.cc/random'',
                   Header = [(''User-Agent'', userAgent)]\<rparr> w,
        Inr ''https://wallhaven.cc/w/zy3kqw'')"
  by (simp add: fetchRandomWallpaperURL_def example_fetch_def http_NewRequest_def Header_Set_def
        doc_listing_def Attr_def First_def Let_def)

lemma example_fileName:
  "wallpaperFileName example_clock ''zy3kqw'' = ''1793696700123-zy3kqw.png''"
  by (simp add: wallpaperFileName_def example_clock_def show_int_def show_nat.simps digit_def
        char_of_eq_iff)

lemma example_filePath:
  "Join [''./Pictures'', ''1793696700123-zy3kqw.png''] = ''Pictures/1793696700123-zy3kqw.png''"
  by (simp add: Join_def Clean_def IsAbs_def)

lemma example_logPath:
  "Join [logsDir, show_nat (Day example_clock) @ ''-'' @ show_nat (Month example_clock) @ ''-''
                  @ show_nat (Year example_clock) @ ''.log''] = ''logs/3-11-2026.log''"
  by (simp add: Join_def Clean_def IsAbs_def logsDir_def example_clock_def show_nat.simps digit_def
        char_of_eq_iff)

lemma gnome_os_detect: "detectWindowManager gnome_os w = (w, ''gnome'')"
  by (simp add: detectWindowManager_def gnome_os_def eval_simps)

lemma writeLog_example_snd: "snd (writeLog example_log w) = None"
  by (simp add: writeLog_result example_log_def)

lemma writeLog_example_dom:
  "dom (files (fst (writeLog example_log w))) = insert ''logs/3-11-2026.log'' (dom (files w))"
proof -
  have env: "wl_now example_log = example_clock" "wl_open example_log = None"
    "wl_write example_log = None"
    by (simp_all add: example_log_def)
  show ?thesis
    unfolding writeLog_def Let_def example_logPath env
    by (simp add: files_simps)
qed


lemma gnome_os_setWallpaper:
  "snd (setWallpaper gnome_os ''1793696700123-zy3kqw.png'' ''./Pictures'' w) = None"
  "dom (files (fst (setWallpaper gnome_os ''1793696700123-zy3kqw.png'' ''./Pictures'' w)))
     = insert ''logs/3-11-2026.log'' (dom (files w))"
  "commands (fst (setWallpaper gnome_os ''1793696700123-zy3kqw.png'' ''./Pictures'' w))
     = commands w @ [gsettings_example]"
proof -
  have env: "Getwd gnome_os = Inr ''/home/u/w''" "log_env gnome_os = example_log"
    "cmd_err (run_cmd gnome_os argv) = None" "cmd_stderr (run_cmd gnome_os argv) = []" for argv
    by (simp_all add: gnome_os_def example_os_def ok_result_def)
  show "snd (setWallpaper gnome_os ''1793696700123-zy3kqw.png'' ''./Pictures'' w) = None"
    unfolding setWallpaper_def Let_def
    by (simp add: env example_absPath gnome_os_detect setWallpaper_gnome_def cmd_exec_def
          writeLog_example_snd Let_def)
  show "dom (files (fst (setWallpaper gnome_os ''1793696700123-zy3kqw.png'' ''./Pictures'' w)))
     = insert ''logs/3-11-2026.log'' (dom (files w))"
    unfolding setWallpaper_def Let_def
    by (simp add: env example_absPath gnome_os_detect setWallpaper_gnome_def cmd_exec_def
          writeLog_example_dom files_simps Let_def)
  show "commands (fst (setWallpaper gnome_os ''1793696700123-zy3kqw.png'' ''./Pictures'' w))
     = commands w @ [gsettings_example]"
    unfolding setWallpaper_def Let_def
    by (simp add: env example_absPath gnome_os_detect setWallpaper_gnome_def cmd_exec_def
          writeLog_frame commands_simps Let_def gsettings_example_def)
qed

lemma doc_detail_eval:
  "extractImageSource doc_detail = (''https://w.wallhaven.cc/full/zy/wallhaven-zy3kqw.png'', True)"
  "Attr (doc_detail ''.scrollbox img'') ''data-wallpaper-id'' = (''zy3kqw'', True)"
  by (simp_all add: extractImageSource_def doc_detail_def Attr_def)

lemma example_download_run:
  "\<exists>v. downloadWallpaper (example_dl doc_detail None os) url ''./Pictures'' w
          = setWallpaper os ''1793696700123-zy3kqw.png'' ''./Pictures'' v
       \<and> files v = (files w)(''Pictures/1793696700123-zy3kqw.png'' \<mapsto> ''PNG-IMAGE-BYTES'')
       \<and> commands v = commands w"
  apply (simp add: downloadWallpaper_def download_image_def example_dl_def http_NewRequest_def
        Let_def doc_detail_eval example_fileName example_filePath)
  apply (rule exI, rule conjI, rule refl)
  apply (simp add: files_simps commands_simps file_content_def)
  done


subsection \<open>Requests sent\<close>

lemma fetchRandomWallpaperURL_requests:
  "requests (fst (fetchRandomWallpaperURL e w))
     = requests w @ (case fetch_Parse e ''https://wallhaven.cc/random'' of
                       None \<Rightarrow> [\<lparr>Method = ''GET'', URL = ''https://wallhaven.cc/random'',
                                  Header = [(''User-Agent'', userAgent)]\<rparr>]
                     | Some err \<Rightarrow> [])"
  by (auto simp: fetchRandomWallpaperURL_def http_NewRequest_def Header_Set_def Let_def
        case_prod_beta requests_simps split: option.splits sum.splits)

lemma download_image_requests:
  "requests (fst (download_image e doc src picturesDir w))
     = requests w @ (case url_Parse e src of
                       None \<Rightarrow> [\<lparr>Method = ''GET'', URL = src,
                                  Header = [(''User-Agent'', userAgent)]\<rparr>]
                     | Some err \<Rightarrow> [])"
  by (auto simp: download_image_def http_NewRequest_def Header_Set_def Let_def
        case_prod_beta requests_simps setWallpaper_requests split: option.splits sum.splits)

lemma downloadWallpaper_requests:
  assumes "url_Parse e url = None"
  shows "\<exists>rest. requests (fst (downloadWallpaper e url picturesDir w))
           = requests w @ \<lparr>Method = ''GET'', URL = url,
                            Header = [(''Accept'', acceptHeader), (''User-Agent'', userAgent)]\<rparr> # rest
         \<and> (rest = [] \<or> (\<exists>src. rest = [\<lparr>Method = ''GET'', URL = src,
                                            Header = [(''User-Agent'', userAgent)]\<rparr>]))"
  using assms
  by (auto simp: downloadWallpaper_def http_NewRequest_def Header_Set_def Let_def
        case_prod_beta requests_simps dump_imgs_requests download_image_requests
        split: option.splits sum.splits)

lemma downloadWallpaper_requests_prefix:
  "\<exists>rest. requests (fst (downloadWallpaper e url picturesDir w)) = requests w @ rest"
  by (auto simp: downloadWallpaper_def http_NewRequest_def Let_def
        case_prod_beta requests_simps dump_imgs_requests download_image_requests
        split: option.splits sum.splits)

lemma iteration_requests_prefix:
  "\<exists>rest. requests (fst (iteration e picturesDir w))
           = requests (fst (fetchRandomWallpaperURL (it_fetch e) w)) @ rest"
proof -
  obtain w1 r where f: "fetchRandomWallpaperURL (it_fetch e) w = (w1, r)"
    by (cases "fetchRandomWallpaperURL (it_fetch e) w")
  show ?thesis
  proof (cases r)
    case (Inl err)
    then show ?thesis
      by (simp add: iteration_def f Let_def requests_simps writeLog_report_frame)
  next
    case (Inr src)
    define w3 where "w3 = logBuffer_WriteString (src @ nl) (Println src w1)"
    obtain w4 d where d: "downloadWallpaper (it_download e) src picturesDir w3 = (w4, d)"
      by (cases "downloadWallpaper (it_download e) src picturesDir w3")
    have "requests w3 = requests w1"
      by (simp add: w3_def requests_simps)
    with downloadWallpaper_requests_prefix [of "it_download e" src picturesDir w3]
    obtain rest where "requests w4 = requests w1 @ rest"
      by (auto simp: d)
    then show ?thesis
      by (cases d)
         (simp_all add: iteration_def f Inr Let_def w3_def [symmetric] d requests_simps
            writeLog_report_frame)
  qed
qed

lemma example_download_ok:
  "snd (downloadWallpaper (example_dl doc_detail None gnome_os) url ''./Pictures'' w) = None"
  using example_download_run [of gnome_os url w] gnome_os_setWallpaper(1) by auto

lemma example_download_requests:
  "requests (fst (downloadWallpaper (example_dl doc_detail None gnome_os) url ''./Pictures'' w))
     = requests w @ [\<lparr>Method = ''GET'', URL = url,
                       Header = [(''Accept'', acceptHeader), (''User-Agent'', userAgent)]\<rparr>,
                     \<lparr>Method = ''GET'',
                       URL = ''https://w.wallhaven.cc/full/zy/wallhaven-zy3kqw.png'',
                       Header = [(''User-Agent'', userAgent)]\<rparr>]"
  by (simp add: downloadWallpaper_def example_dl_def http_NewRequest_def Header_Set_def
        Let_def doc_detail_eval download_image_requests requests_simps)

subsection \<open>Paths through the setter, the download and the loop\<close>

lemma setWallpaper_applied:
  assumes "Abs (Getwd e) (Join [picturesDir, fileName]) = Inr absPath"
    and "(snd (detectWindowManager e w) = ''gnome''
            \<and> cmd_err (run_cmd e [''gsettings'', ''set'', ''org.gnome.desktop.background'',
                                   ''picture-uri'', ''file://'' @ absPath]) = None
            \<and> cmd_stderr (run_cmd e [''gsettings'', ''set'', ''org.gnome.desktop.background'',
                                      ''picture-uri'', ''file://'' @ absPath]) = [])
         \<or> ((snd (detectWindowManager e w) = ''dwm'' \<or> snd (detectWindowManager e w) = ''i3'')
            \<and> LookPath e ''feh'' = None
            \<and> cmd_err (run_cmd e [''feh'', ''--bg-scale'', absPath]) = None
            \<and> cmd_stderr (run_cmd e [''feh'', ''--bg-scale'', absPath]) = [])"
  shows "\<exists>v. setWallpaper e fileName picturesDir w = writeLog (log_env e) v
           \<and> last (commands v) = (if snd (detectWindowManager e w) = ''gnome''
                                   then [''gsettings'', ''set'', ''org.gnome.desktop.background'',
                                         ''picture-uri'', ''file://'' @ absPath]
                                   else [''feh'', ''--bg-scale'', absPath])"
proof -
  obtain w0 wm where dw: "detectWindowManager e w = (w0, wm)"
    by (cases "detectWindowManager e w")
  from assms(2) consider
    (gnome) "wm = ''gnome''"
      "cmd_err (run_cmd e [''gsettings'', ''set'', ''org.gnome.desktop.background'',
                           ''picture-uri'', ''file://'' @ absPath]) = None"
      "cmd_stderr (run_cmd e [''gsettings'', ''set'', ''org.gnome.desktop.background'',
                              ''picture-uri'', ''file://'' @ absPath]) = []"
    | (feh) "wm \<noteq> ''gnome''" "wm = ''dwm'' \<or> wm = ''i3''" "LookPath e ''feh'' = None"
      "cmd_err (run_cmd e [''feh'', ''--bg-scale'', absPath]) = None"
      "cmd_stderr (run_cmd e [''feh'', ''--bg-scale'', absPath]) = []"
    unfolding dw snd_conv by auto
  then show ?thesis
  proof cases
    case gnome
    from gnome(2,3) show ?thesis
      unfolding setWallpaper_def Let_def assms(1) dw sum.case prod.case snd_conv
      apply (simp add: gnome(1) setWallpaper_gnome_def cmd_exec_def Let_def)
      apply (rule exI, rule conjI, rule refl)
      apply (simp add: commands_simps)
      done
  next
    case feh
    from feh(2-5) show ?thesis
      unfolding setWallpaper_def Let_def assms(1) dw sum.case prod.case snd_conv
      apply (simp add: feh(1) setWallpaper_feh_def cmd_exec_def Let_def)
      apply (intro conjI impI)
       apply (rule exI, rule conjI, rule refl, simp add: commands_simps i3_persist_frame)+
      done
  qed
qed

lemma downloadWallpaper_reaches_setWallpaper:
  assumes "url_Parse e url = None" and "page_Do e = Inr resp" and "StatusCode resp = 200"
    and "Body resp = Inr doc" and "extractImageSource doc = (src, True)"
    and "url_Parse e src = None" and "image_Do e = Inr imgResp" and "StatusCode imgResp = 200"
    and "create_fault e = None" and "copy_fault e = None"
  shows "\<exists>v name. downloadWallpaper e url picturesDir w = setWallpaper (set_env e) name picturesDir v"
  using assms
  by (auto simp: downloadWallpaper_def download_image_def http_NewRequest_def Let_def
        case_prod_beta)

lemma iteration_download_failed:
  assumes "snd (fetchRandomWallpaperURL (it_fetch t) w) = Inr src"
    and "snd (downloadWallpaper (it_download t) src picturesDir
                (logBuffer_WriteString (src @ nl)
                   (Println src (fst (fetchRandomWallpaperURL (it_fetch t) w))))) = Some err"
  shows "iteration t picturesDir w
     = (Sleep 2 (writeLog_report (it_log t)
          (logBuffer_WriteString (''Error downloading wallpaper: '' @ Error err @ nl)
             (Print (''Error downloading wallpaper: '' @ Error err @ nl)
                (fst (downloadWallpaper (it_download t) src picturesDir
                        (logBuffer_WriteString (src @ nl)
                           (Println src (fst (fetchRandomWallpaperURL (it_fetch t) w))))))))),
        Continue)"
proof -
  obtain w1 where f: "fetchRandomWallpaperURL (it_fetch t) w = (w1, Inr src)"
    using assms(1) by (metis prod.collapse)
  obtain w4 where d: "downloadWallpaper (it_download t) src picturesDir
                (logBuffer_WriteString (src @ nl) (Println src w1)) = (w4, Some err)"
    using assms(2) unfolding f fst_conv by (metis prod.collapse)
  show ?thesis
    unfolding iteration_def f prod.case sum.case Let_def d option.case fst_conv by simp
qed

lemma setWallpaper_i3:
  assumes "Abs (Getwd e) (Join [picturesDir, fileName]) = Inr absPath"
    and "snd (detectWindowManager e v) = ''i3''"
    and "LookPath e ''feh'' = None"
    and "cmd_err (run_cmd e [''feh'', ''--bg-scale'', absPath]) = None"
    and "cmd_stderr (run_cmd e [''feh'', ''--bg-scale'', absPath]) = []"
  shows "\<exists>u. setWallpaper e fileName picturesDir v
           = writeLog (log_env e)
               (Println ''Wallpaper Set''
                  (logBuffer_WriteString (''Wallpaper Set'' @ nl) (i3_persist e absPath u)))
         \<and> files u = files v"
proof -
  obtain w0 where dw: "detectWindowManager e v = (w0, ''i3'')"
    using assms(2) by (metis prod.collapse)
  have w0: "files w0 = files v"
    using detectWindowManager_frame(2) [of e v] by (simp add: dw)
  from assms(3-5) show ?thesis
    unfolding setWallpaper_def Let_def assms(1) dw sum.case prod.case
    apply (simp add: setWallpaper_feh_def cmd_exec_def Let_def)
    apply (rule exI, rule conjI, rule refl)
    apply (simp add: files_simps w0)
    done
qed

lemma example_configPath:
  "Join [''/home/u'', ''.config'', ''i3'', ''config''] = ''/home/u/.config/i3/config''"
  by (simp add: Join_def Clean_def IsAbs_def)




section \<open>The environment detector\<close>

text \<open>
  C2. The detector decides by the first match, in a fixed order. With "the variables
  mention a name" meaning that the value of \<open>XDG_CURRENT_DESKTOP\<close> or of
  \<open>DESKTOP_SESSION\<close>, lowered by \<open>strings.ToLower\<close>, has the name as a substring: if
  they mention gnome the answer is gnome, whatever else they mention and without any
  process query; else if they mention i3 it is i3; else if they mention dwm it is dwm;
  else \<open>pgrep -l dwm\<close> is run and, if it succeeds with dwm in its output, the answer is
  dwm; else \<open>pgrep -l i3\<close> is run too and, if it succeeds with i3 in its output, the
  answer is i3; else it is unknown. For values of ASCII bytes, to mention a name is to
  have it as a substring up to the case of the letters A to Z.
\<close>

theorem detectWindowManager_decision:
  "let lowered = (\<lambda>key. ToLower (caseTable e) (Getenv e key));
       has = (\<lambda>name. Contains (lowered ''XDG_CURRENT_DESKTOP'') name
                     \<or> Contains (lowered ''DESKTOP_SESSION'') name);
       dwm = run_cmd e [''pgrep'', ''-l'', ''dwm''];
       i3 = run_cmd e [''pgrep'', ''-l'', ''i3''];
       dwm_found = (cmd_err dwm = None \<and> Contains (cmd_stdout dwm) ''dwm'');
       i3_found = (cmd_err i3 = None \<and> Contains (cmd_stdout i3) ''i3'');
       w1 = w\<lparr>commands := commands w @ [[''pgrep'', ''-l'', ''dwm'']]\<rparr>;
       w2 = w\<lparr>commands := commands w @ [[''pgrep'', ''-l'', ''dwm''], [''pgrep'', ''-l'', ''i3'']]\<rparr>
   in (has ''gnome'' \<longrightarrow> detectWindowManager e w = (w, ''gnome''))
    \<and> (\<not> has ''gnome'' \<and> has ''i3'' \<longrightarrow> detectWindowManager e w = (w, ''i3''))
    \<and> (\<not> has ''gnome'' \<and> \<not> has ''i3'' \<and> has ''dwm'' \<longrightarrow> detectWindowManager e w = (w, ''dwm''))
    \<and> (\<not> has ''gnome'' \<and> \<not> has ''i3'' \<and> \<not> has ''dwm'' \<and> dwm_found
          \<longrightarrow> detectWindowManager e w = (w1, ''dwm''))
    \<and> (\<not> has ''gnome'' \<and> \<not> has ''i3'' \<and> \<not> has ''dwm'' \<and> \<not> dwm_found \<and> i3_found
          \<longrightarrow> detectWindowManager e w = (w2, ''i3''))
    \<and> (\<not> has ''gnome'' \<and> \<not> has ''i3'' \<and> \<not> has ''dwm'' \<and> \<not> dwm_found \<and> \<not> i3_found
          \<longrightarrow> detectWindowManager e w = (w2, ''unknown''))
    \<and> (is_ascii (Getenv e ''XDG_CURRENT_DESKTOP'') \<and> is_ascii (Getenv e ''DESKTOP_SESSION'')
          \<longrightarrow> (\<forall>name. has name \<longleftrightarrow> ci_substring name (Getenv e ''XDG_CURRENT_DESKTOP'')
                                     \<or> ci_substring name (Getenv e ''DESKTOP_SESSION'')))"
  unfolding detectWindowManager_def Let_def cmd_exec_def
  by (simp add: ToLower_ascii Contains_lowered)

theorem detectWindowManager_decision_witness:
  "detectWindowManager (example_os ''ubuntu:GNOME'' ''i3-or-dwm'' (pgrep_finds ''dwm'')) initial_world
     = (initial_world, ''gnome'')
   \<and> detectWindowManager (example_os ''I3'' ''dwm'' (pgrep_finds ''dwm'')) initial_world
     = (initial_world, ''i3'')
   \<and> detectWindowManager (example_os [CHR 0xC4, CHR 0xB0, CHR ''3''] [] (pgrep_finds ''dwm''))
        initial_world
     = (initial_world, ''i3'')
   \<and> detectWindowManager (example_os [] ''DWM'' (pgrep_finds ''i3'')) initial_world
     = (initial_world, ''dwm'')
   \<and> detectWindowManager (example_os [] [] (pgrep_finds ''dwm'')) initial_world
     = (initial_world\<lparr>commands := [[''pgrep'', ''-l'', ''dwm'']]\<rparr>, ''dwm'')
   \<and> detectWindowManager (example_os [] [] (pgrep_finds ''i3'')) initial_world
     = (initial_world\<lparr>commands := [[''pgrep'', ''-l'', ''dwm''], [''pgrep'', ''-l'', ''i3'']]\<rparr>, ''i3'')
   \<and> detectWindowManager (example_os [] [] (pgrep_finds ''sway'')) initial_world
     = (initial_world\<lparr>commands := [[''pgrep'', ''-l'', ''dwm''], [''pgrep'', ''-l'', ''i3'']]\<rparr>,
        ''unknown'')
   \<and> (Contains (ToLower example_caseTable ''ubuntu:GNOME'') ''gnome''
        \<longleftrightarrow> ci_substring ''gnome'' ''ubuntu:GNOME'' \<or> ci_substring ''gnome'' ''i3-or-dwm'')"
  using detectWindowManager_decision [of "example_os ''ubuntu:GNOME'' ''i3-or-dwm'' (pgrep_finds ''dwm'')" initial_world]
        detectWindowManager_decision [of "example_os ''I3'' ''dwm'' (pgrep_finds ''dwm'')" initial_world]
        detectWindowManager_decision [of "example_os [CHR 0xC4, CHR 0xB0, CHR ''3''] [] (pgrep_finds ''dwm'')" initial_world]
        detectWindowManager_decision [of "example_os [] ''DWM'' (pgrep_finds ''i3'')" initial_world]
        detectWindowManager_decision [of "example_os [] [] (pgrep_finds ''dwm'')" initial_world]
        detectWindowManager_decision [of "example_os [] [] (pgrep_finds ''i3'')" initial_world]
        detectWindowManager_decision [of "example_os [] [] (pgrep_finds ''sway'')" initial_world]
  unfolding Let_def
  by (simp add: eval_simps is_ascii_def toLower_char_def)

section \<open>The selector chain\<close>

text \<open>
  C1 (as amended). The chain tries the three strategies in order, \<open>data-cfsrc\<close> on the
  first image of the scroll container, \<open>src\<close> on the first element with the wallpaper
  id, \<open>src\<close> on the first showcase image, and stops at the first strategy whose
  attribute exists, whatever its value: an attribute that is present but empty ends the
  chain with the empty value. A strategy passes to the next one only when its selection
  is empty or the first element of the selection has no such attribute.
\<close>

theorem extractImageSource_first_existing:
  "let lazy = Attr (doc ''.scrollbox img'') ''data-cfsrc'';
       byId = Attr (doc ''#wallpaper'') ''src'';
       showcase = Attr (doc ''img#showcase-wallpaper'') ''src''
   in (snd lazy \<longrightarrow> extractImageSource doc = lazy)
    \<and> (\<not> snd lazy \<and> snd byId \<longrightarrow> extractImageSource doc = byId)
    \<and> (\<not> snd lazy \<and> \<not> snd byId \<longrightarrow> extractImageSource doc = showcase)
    \<and> (snd (Attr s attrName) \<longleftrightarrow> s \<noteq> [] \<and> attrName \<in> fst ` set (hd s))"
proof -
  have "(snd (Attr (doc ''.scrollbox img'') ''data-cfsrc'')
           \<longrightarrow> extractImageSource doc = Attr (doc ''.scrollbox img'') ''data-cfsrc'')
      \<and> (\<not> snd (Attr (doc ''.scrollbox img'') ''data-cfsrc'') \<and> snd (Attr (doc ''#wallpaper'') ''src'')
           \<longrightarrow> extractImageSource doc = Attr (doc ''#wallpaper'') ''src'')
      \<and> (\<not> snd (Attr (doc ''.scrollbox img'') ''data-cfsrc'') \<and> \<not> snd (Attr (doc ''#wallpaper'') ''src'')
           \<longrightarrow> extractImageSource doc = Attr (doc ''img#showcase-wallpaper'') ''src'')"
    by (simp add: extractImageSource_def case_prod_beta prod_eq_iff)
  then show ?thesis
    unfolding Let_def using Attr_exists [of s attrName] by blast
qed

theorem extractImageSource_first_existing_witness:
  "extractImageSource doc_lazy_empty = ([], True)
   \<and> extractImageSource doc_wallpaper_id = (''https://w.wallhaven.cc/a.png'', True)
   \<and> extractImageSource doc_showcase = (''https://w.wallhaven.cc/full/zy/wallhaven-zy3kqw.png'', True)
   \<and> extractImageSource doc_no_source = ([], False)"
  using extractImageSource_first_existing [of doc_lazy_empty "[]" "[]"]
        extractImageSource_first_existing [of doc_wallpaper_id "[]" "[]"]
        extractImageSource_first_existing [of doc_showcase "[]" "[]"]
        extractImageSource_first_existing [of doc_no_source "[]" "[]"]
  unfolding Let_def
  by (simp add: doc_lazy_empty_def doc_wallpaper_id_def doc_showcase_def doc_no_source_def Attr_def)

text \<open>
  C1 as stated fails: on a page whose first scroll-container image has an empty
  \<open>data-cfsrc\<close> and whose wallpaper element has a non-empty \<open>src\<close>, the chain ends
  at the first strategy with the empty value.
\<close>

theorem extractImageSource_empty_counterexample:
  "Attr (doc_lazy_empty ''.scrollbox img'') ''data-cfsrc'' = ([], True)
   \<and> Attr (doc_lazy_empty ''#wallpaper'') ''src''
       = (''https://w.wallhaven.cc/full/zy/wallhaven-zy3kqw.png'', True)
   \<and> extractImageSource doc_lazy_empty = ([], True)"
  by (simp add: extractImageSource_def doc_lazy_empty_def Attr_def)

text \<open>
  C3. When the page is fetched and parsed and all three strategies fail, none of the
  three attributes existing on the first element of its selection, the download
  returns the error \<open>wallpaper image source not found\<close>, and the log buffer has
  received the headline and then, for every element of the selection \<open>img\<close> in
  document order, one line with its index and the values of its \<open>src\<close> and
  \<open>data-cfsrc\<close> attributes (empty when absent). No file is touched.
\<close>

theorem downloadWallpaper_not_found_dump:
  assumes "url_Parse e url = None"
    and "page_Do e = Inr resp" and "StatusCode resp = 200" and "Body resp = Inr doc"
    and "\<not> snd (Attr (doc ''.scrollbox img'') ''data-cfsrc'')"
    and "\<not> snd (Attr (doc ''#wallpaper'') ''src'')"
    and "\<not> snd (Attr (doc ''img#showcase-wallpaper'') ''src'')"
  shows "let line = (\<lambda>i. ''img '' @ show_nat i @ '': src=''
                        @ (case map_of (doc ''img'' ! i) ''src'' of None \<Rightarrow> [] | Some v \<Rightarrow> v)
                        @ '', data-cfsrc=''
                        @ (case map_of (doc ''img'' ! i) ''data-cfsrc'' of None \<Rightarrow> [] | Some v \<Rightarrow> v)
                        @ nl);
             w' = fst (downloadWallpaper e url picturesDir w)
         in snd (downloadWallpaper e url picturesDir w)
              = Some (errors_New ''wallpaper image source not found'')
          \<and> logBuffer w' = logBuffer w @ ''No image source found. Dumping img tags:'' @ nl
                             @ concat (map line [0..<length (doc ''img'')])
          \<and> (\<forall>i < length (doc ''img''). Contains (logBuffer w') (line i))
          \<and> files w' = files w"
proof -
  define line where "line = (\<lambda>i. ''img '' @ show_nat i @ '': src=''
                        @ (case map_of (doc ''img'' ! i) ''src'' of None \<Rightarrow> [] | Some v \<Rightarrow> v)
                        @ '', data-cfsrc=''
                        @ (case map_of (doc ''img'' ! i) ''data-cfsrc'' of None \<Rightarrow> [] | Some v \<Rightarrow> v)
                        @ nl)"
  define w' where "w' = fst (downloadWallpaper e url picturesDir w)"
  have chain: "extractImageSource doc = Attr (doc ''img#showcase-wallpaper'') ''src''"
    using assms(5,6) by (simp add: extractImageSource_def case_prod_beta)
  have run: "downloadWallpaper e url picturesDir w
      = (dump_imgs 0 (doc ''img'')
           (logBuffer_WriteString (''No image source found. Dumping img tags:'' @ nl)
              (Println ''No image source found. Dumping img tags:''
                 (client_Do (Header_Set ''Accept'' acceptHeader
                    (Header_Set ''User-Agent'' userAgent \<lparr>Method = ''GET'', URL = url, Header = []\<rparr>)) w))),
         Some (errors_New ''wallpaper image source not found''))"
    using assms(1-4,7) chain
    by (simp add: downloadWallpaper_def http_NewRequest_def Let_def case_prod_beta)
  have err: "snd (downloadWallpaper e url picturesDir w)
      = Some (errors_New ''wallpaper image source not found'')"
    by (simp add: run)
  have lines: "(\<lambda>k. img_line (0 + k) (doc ''img'' ! k)) = line"
    by (simp add: line_def img_line_attrs)
  have log: "logBuffer w' = logBuffer w @ ''No image source found. Dumping img tags:'' @ nl
                             @ concat (map line [0..<length (doc ''img'')])"
    unfolding w'_def run fst_conv dump_imgs_logBuffer lines
    by (simp add: logBuffer_simps)
  have each: "\<forall>i < length (doc ''img''). Contains (logBuffer w') (line i)"
  proof (intro allI impI)
    fix i assume "i < length (doc ''img'')"
    from concat_map_upt_split [OF this, of line]
    have "logBuffer w' = (logBuffer w @ ''No image source found. Dumping img tags:'' @ nl
             @ concat (map line [0..<i])) @ line i @ concat (map line [Suc i..<length (doc ''img'')])"
      unfolding log by simp
    then show "Contains (logBuffer w') (line i)"
      unfolding Contains_append by blast
  qed
  have fs: "files w' = files w"
    unfolding w'_def run fst_conv by (simp add: dump_imgs_files files_simps)
  show ?thesis
    using err log each fs unfolding Let_def line_def w'_def by blast
qed

theorem downloadWallpaper_not_found_dump_witness:
  "snd (downloadWallpaper (example_dl doc_no_source None (example_os [] [] (pgrep_finds ''i3'')))
          ''https://wallhaven.cc/w/zy3kqw'' ''./Pictures'' initial_world)
     = Some (errors_New ''wallpaper image source not found'')
   \<and> logBuffer (fst (downloadWallpaper (example_dl doc_no_source None (example_os [] [] (pgrep_finds ''i3'')))
          ''https://wallhaven.cc/w/zy3kqw'' ''./Pictures'' initial_world))
     = ''No image source found. Dumping img tags:'' @ nl
       @ ''img 0: src=/logo.png, data-cfsrc='' @ nl
       @ ''img 1: src=, data-cfsrc=/lazy.png'' @ nl"
proof -
  let ?e = "example_dl doc_no_source None (example_os [] [] (pgrep_finds ''i3''))"
  have h1: "url_Parse ?e ''https://wallhaven.cc/w/zy3kqw'' = None"
    and h2: "page_Do ?e = Inr \<lparr>StatusCode = 200, Body = Inr doc_no_source\<rparr>"
    by (simp_all add: example_dl_def)
  have h3: "\<not> snd (Attr (doc_no_source ''.scrollbox img'') ''data-cfsrc'')"
    and h4: "\<not> snd (Attr (doc_no_source ''#wallpaper'') ''src'')"
    and h5: "\<not> snd (Attr (doc_no_source ''img#showcase-wallpaper'') ''src'')"
    by (simp_all add: doc_no_source_def Attr_def)
  have imgs: "doc_no_source ''img''
      = [[(''src'', ''/logo.png'')], [(''alt'', ''x''), (''data-cfsrc'', ''/lazy.png'')]]"
    by (simp add: doc_no_source_def)
  have upt2: "[0..<2] = [0, Suc 0]"
    by (simp add: upt_conv_Cons)
  show ?thesis
    using downloadWallpaper_not_found_dump [OF h1 h2 _ _ h3 h4 h5, of "''./Pictures''" initial_world]
    unfolding Let_def imgs
    by (simp add: upt2 show_nat.simps digit_def char_of_eq_iff initial_world_def)
qed

section \<open>The wallpaper setter\<close>

text \<open>
  C4. When the tool of the branch runs without error (exit status zero) but writes
  something on its diagnostic stream, \<open>setWallpaper\<close> returns an error that quotes
  the stream: for \<open>gsettings\<close> on gnome, and for \<open>feh\<close> on dwm and i3 once \<open>feh\<close> is
  found on the search path. The tool is the last command that was run.
\<close>

theorem setWallpaper_stderr_is_error:
  assumes "Abs (Getwd e) (Join [picturesDir, fileName]) = Inr absPath"
  shows "let wm = snd (detectWindowManager e w);
             gsettings = [''gsettings'', ''set'', ''org.gnome.desktop.background'', ''picture-uri'',
                          ''file://'' @ absPath];
             feh = [''feh'', ''--bg-scale'', absPath];
             result = setWallpaper e fileName picturesDir w
         in (wm = ''gnome'' \<and> cmd_err (run_cmd e gsettings) = None
               \<and> cmd_stderr (run_cmd e gsettings) \<noteq> []
             \<longrightarrow> snd result = Some (errors_New (''gsettings stderr: '' @ cmd_stderr (run_cmd e gsettings)))
                 \<and> last (commands (fst result)) = gsettings)
          \<and> ((wm = ''dwm'' \<or> wm = ''i3'') \<and> LookPath e ''feh'' = None
               \<and> cmd_err (run_cmd e feh) = None \<and> cmd_stderr (run_cmd e feh) \<noteq> []
             \<longrightarrow> snd result = Some (errors_New (''feh stderr: '' @ cmd_stderr (run_cmd e feh)))
                 \<and> last (commands (fst result)) = feh)"
proof -
  obtain w0 wm where dw: "detectWindowManager e w = (w0, wm)"
    by (cases "detectWindowManager e w")
  show ?thesis
    unfolding Let_def setWallpaper_def
    using assms
    by (simp add: dw setWallpaper_gnome_def setWallpaper_feh_def cmd_exec_def Let_def
          writeLog_report_frame commands_simps)
qed


theorem setWallpaper_stderr_is_error_witness:
  "snd (setWallpaper (example_os [] ''dwm'' tool_warns) ''1793696700123-zy3kqw.png'' ''./Pictures''
          initial_world)
     = Some (errors_New ''feh stderr: warning: cannot open display'')
   \<and> snd (setWallpaper (example_os ''ubuntu:GNOME'' [] tool_warns) ''1793696700123-zy3kqw.png''
            ''./Pictures'' initial_world)
     = Some (errors_New ''gsettings stderr: warning: cannot open display'')"
proof -
  have a1: "Abs (Getwd (example_os [] ''dwm'' tool_warns))
              (Join [''./Pictures'', ''1793696700123-zy3kqw.png''])
            = Inr ''/home/u/w/Pictures/1793696700123-zy3kqw.png''"
    and a2: "Abs (Getwd (example_os ''ubuntu:GNOME'' [] tool_warns))
              (Join [''./Pictures'', ''1793696700123-zy3kqw.png''])
            = Inr ''/home/u/w/Pictures/1793696700123-zy3kqw.png''"
    using example_absPath by (simp_all add: example_os_def)
  have d1: "snd (detectWindowManager (example_os [] ''dwm'' tool_warns) initial_world) = ''dwm''"
    and d2: "snd (detectWindowManager (example_os ''ubuntu:GNOME'' [] tool_warns) initial_world)
             = ''gnome''"
    by (simp_all add: detectWindowManager_def eval_simps)
  have r: "cmd_err (tool_warns argv) = None"
      "cmd_stderr (tool_warns argv) = ''warning: cannot open display''" for argv
    by (simp_all add: tool_warns_def)
  have l: "LookPath (example_os x y z) ''feh'' = None" "run_cmd (example_os x y z) = z" for x y z
    by (simp_all add: example_os_def)
  show ?thesis
    using setWallpaper_stderr_is_error [OF a1, of initial_world]
          setWallpaper_stderr_is_error [OF a2, of initial_world]
    unfolding Let_def d1 d2
    by (simp add: r l)
qed

section \<open>Names of the downloaded files\<close>



section \<open>Requests\<close>

text \<open>
  C7 (as amended). Every page fetch sends a GET request with the fixed User-Agent
  header. The request for the detail page in \<open>downloadWallpaper\<close> carries the fixed
  Accept header as well; the request for the listing page in
  \<open>fetchRandomWallpaperURL\<close> carries the User-Agent header only, as does the request
  for the image.
\<close>

theorem page_fetch_headers:
  "let ua = (''User-Agent'', userAgent);
       listing = \<lparr>Method = ''GET'', URL = ''https://wallhaven.cc/random'', Header = [ua]\<rparr>;
       detail = \<lparr>Method = ''GET'', URL = url, Header = [(''Accept'', acceptHeader), ua]\<rparr>
   in (fetch_Parse fe ''https://wallhaven.cc/random'' = None
         \<longrightarrow> requests (fst (fetchRandomWallpaperURL fe w)) = requests w @ [listing])
    \<and> (url_Parse de url = None
         \<longrightarrow> (\<exists>rest. requests (fst (downloadWallpaper de url picturesDir w))
                        = requests w @ detail # rest
                    \<and> (rest = [] \<or> (\<exists>src. rest = [\<lparr>Method = ''GET'', URL = src, Header = [ua]\<rparr>]))))
    \<and> map_of (Header listing) ''Accept'' = None
    \<and> map_of (Header listing) ''User-Agent'' = Some userAgent
    \<and> map_of (Header detail) ''Accept'' = Some acceptHeader
    \<and> map_of (Header detail) ''User-Agent'' = Some userAgent"
  unfolding Let_def
  using downloadWallpaper_requests [of de url picturesDir w]
  by (simp add: fetchRandomWallpaperURL_requests)

theorem page_fetch_headers_witness:
  "requests (fst (fetchRandomWallpaperURL example_fetch initial_world))
     = [\<lparr>Method = ''GET'', URL = ''https://wallhaven.cc/random'',
         Header = [(''User-Agent'', userAgent)]\<rparr>]
   \<and> hd (requests (fst (downloadWallpaper (example_dl doc_detail None gnome_os)
                           ''https://wallhaven.cc/w/zy3kqw'' ''./Pictures'' initial_world)))
     = \<lparr>Method = ''GET'', URL = ''https://wallhaven.cc/w/zy3kqw'',
        Header = [(''Accept'', acceptHeader), (''User-Agent'', userAgent)]\<rparr>"
proof -
  have p: "fetch_Parse example_fetch ''https://wallhaven.cc/random'' = None"
    "url_Parse (example_dl doc_detail None gnome_os) ''https://wallhaven.cc/w/zy3kqw'' = None"
    by (simp_all add: example_fetch_def example_dl_def)
  have r: "requests initial_world = []"
    by (simp add: initial_world_def)
  from page_fetch_headers [where fe = example_fetch and w = initial_world
      and de = "example_dl doc_detail None gnome_os" and url = "''https://wallhaven.cc/w/zy3kqw''"
      and picturesDir = "''./Pictures''"]
  show ?thesis
    unfolding Let_def by (auto simp: p r)
qed

text \<open>
  C7 as stated fails: the request that fetches the listing page has no Accept header.
\<close>

theorem listing_fetch_accept_counterexample:
  "map_of (Header (hd (requests (fst (fetchRandomWallpaperURL example_fetch initial_world)))))
      ''Accept'' = None
   \<and> requests (fst (fetchRandomWallpaperURL example_fetch initial_world))
      = [\<lparr>Method = ''GET'', URL = ''https://wallhaven.cc/random'',
          Header = [(''User-Agent'', userAgent)]\<rparr>]
   \<and> snd (fetchRandomWallpaperURL example_fetch initial_world) = Inr ''https://wallhaven.cc/w/zy3kqw''"
  by (simp add: example_fetch_run requests_simps initial_world_def)

section \<open>The session loop\<close>

text \<open>
  C8. In a turn of the loop whose fetch and whose download and set succeed, the user is
  prompted, and the turn ends the loop exactly when the line read, trimmed of its leading
  and trailing white space (\<open>strings.TrimSpace\<close>) and lowered (\<open>strings.ToLower\<close>), is
  \<open>y\<close>; on any other line the loop goes on with its next turn, and every turn begins by
  requesting the random listing page. Once the loop has started, the program exits, with
  status 0, exactly when the loop ends.
\<close>

theorem iteration_prompt_decision:
  assumes "snd (fetchRandomWallpaperURL (it_fetch e) w) = Inr src"
    and "snd (downloadWallpaper (it_download e) src picturesDir
                (logBuffer_WriteString (src @ nl)
                   (Println src (fst (fetchRandomWallpaperURL (it_fetch e) w))))) = None"
  shows "let w4 = fst (downloadWallpaper (it_download e) src picturesDir
                         (logBuffer_WriteString (src @ nl)
                            (Println src (fst (fetchRandomWallpaperURL (it_fetch e) w)))));
             response = ToLower (caseTable (set_env (it_download e))) (TrimSpace (it_line e));
             w' = fst (iteration e picturesDir w)
         in (snd (iteration e picturesDir w) = Break \<longleftrightarrow> response = ''y'')
          \<and> (snd (iteration e picturesDir w) = Continue \<longleftrightarrow> response \<noteq> ''y'')
          \<and> (\<exists>said. stdout w' = stdout w4 @ ''Do you like this wallpaper? (y/n): '' @ said)
          \<and> session_loop (e # es) picturesDir w
              = (if response = ''y'' then Some w' else session_loop es picturesDir w')
          \<and> (\<forall>e' v. fetch_Parse (it_fetch e') ''https://wallhaven.cc/random'' = None
                \<longrightarrow> (\<exists>rest. requests (fst (iteration e' picturesDir v))
                       = requests v @ \<lparr>Method = ''GET'', URL = ''https://wallhaven.cc/random'',
                                        Header = [(''User-Agent'', userAgent)]\<rparr> # rest))
          \<and> (startup m u = Inr (dir, u')
                \<longrightarrow> snd (main m u)
                    = (if session_loop (turns m) dir u' = None then None else Some 0))"
proof -
  obtain w1 where f: "fetchRandomWallpaperURL (it_fetch e) w = (w1, Inr src)"
    using assms(1) by (metis prod.collapse)
  obtain w4 where d: "downloadWallpaper (it_download e) src picturesDir
                (logBuffer_WriteString (src @ nl) (Println src w1)) = (w4, None)"
    using assms(2) unfolding f fst_conv by (metis prod.collapse)
  have it: "iteration e picturesDir w =
      (if ToLower (caseTable (set_env (it_download e))) (TrimSpace (it_line e)) = ''y'' then
         (writeLog_report (it_log e)
            (logBuffer_WriteString (''User chose to keep wallpaper. Exiting.'' @ nl)
               (Println ''Keeping this wallpaper. Exiting.''
                  (Print ''Do you like this wallpaper? (y/n): '' w4))), Break)
       else
         (writeLog_report (it_log e)
            (logBuffer_WriteString (''User chose next wallpaper.'' @ nl)
               (Println ''Fetching next wallpaper...''
                  (Print ''Do you like this wallpaper? (y/n): '' w4))), Continue))"
    unfolding iteration_def f prod.case sum.case Let_def d option.case by simp
  have out: "\<exists>said. stdout (fst (iteration e picturesDir w))
                = stdout w4 @ ''Do you like this wallpaper? (y/n): '' @ said"
    unfolding it by (simp add: writeLog_report_frame stdout_simps)
  have loop: "session_loop (e # es) picturesDir w
      = (if ToLower (caseTable (set_env (it_download e))) (TrimSpace (it_line e)) = ''y'' then Some (fst (iteration e picturesDir w))
         else session_loop es picturesDir (fst (iteration e picturesDir w)))"
    unfolding session_loop.simps it by simp
  have next_turn: "\<exists>rest. requests (fst (iteration e' picturesDir v))
         = requests v @ \<lparr>Method = ''GET'', URL = ''https://wallhaven.cc/random'',
                          Header = [(''User-Agent'', userAgent)]\<rparr> # rest"
    if "fetch_Parse (it_fetch e') ''https://wallhaven.cc/random'' = None" for e' v
    using iteration_requests_prefix [of e' picturesDir v] that
    by (auto simp: fetchRandomWallpaperURL_requests)
  have exit: "snd (main m u) = (if session_loop (turns m) dir u' = None then None else Some 0)"
    if "startup m u = Inr (dir, u')"
    by (simp add: main_def that split: option.splits sum.splits)
  have dec: "(snd (iteration e picturesDir w) = Break) = (ToLower (caseTable (set_env (it_download e))) (TrimSpace (it_line e)) = ''y'')"
    "(snd (iteration e picturesDir w) = Continue) = (ToLower (caseTable (set_env (it_download e))) (TrimSpace (it_line e)) \<noteq> ''y'')"
    unfolding it by simp_all
  show ?thesis
    unfolding Let_def f fst_conv d
    using dec out loop next_turn exit by blast
qed

theorem iteration_prompt_decision_witness:
  "snd (iteration (example_turn gnome_os None ''  Y '') ''./Pictures'' initial_world) = Break
   \<and> snd (iteration (example_turn gnome_os None [CHR 0xC2, CHR 0xA0, CHR ''y''])
             ''./Pictures'' initial_world) = Break
   \<and> snd (iteration (example_turn gnome_os None ''yes'') ''./Pictures'' initial_world) = Continue
   \<and> snd (iteration (example_turn gnome_os None []) ''./Pictures'' initial_world) = Continue
   \<and> session_loop [example_turn gnome_os None ''no'', example_turn gnome_os None ''y'']
        ''./Pictures'' initial_world \<noteq> None
   \<and> session_loop [example_turn gnome_os None ''no'', example_turn gnome_os None ''yes'']
        ''./Pictures'' initial_world = None
   \<and> snd (main (example_main [example_turn gnome_os None ''no'', example_turn gnome_os None ''y''])
             initial_world) = Some 0
   \<and> snd (main (example_main [example_turn gnome_os None ''no'', example_turn gnome_os None ''yes''])
             initial_world) = None"
proof -
  have env: "it_fetch (example_turn gnome_os None line) = example_fetch"
    "it_download (example_turn gnome_os None line) = example_dl doc_detail None gnome_os"
    "it_line (example_turn gnome_os None line) = line"
    "caseTable (set_env (example_dl doc_detail None gnome_os)) = example_caseTable" for line
    by (simp_all add: example_turn_def example_dl_def gnome_os_def example_os_def)
  have h1: "snd (fetchRandomWallpaperURL (it_fetch (example_turn gnome_os None line)) v)
              = Inr ''https://wallhaven.cc/w/zy3kqw''" for line v
    by (simp add: env(1) example_fetch_run)
  have h2: "snd (downloadWallpaper (it_download (example_turn gnome_os None line))
                ''https://wallhaven.cc/w/zy3kqw'' ''./Pictures''
                (logBuffer_WriteString (''https://wallhaven.cc/w/zy3kqw'' @ nl)
                   (Println ''https://wallhaven.cc/w/zy3kqw''
                      (fst (fetchRandomWallpaperURL (it_fetch (example_turn gnome_os None line)) v)))))
              = None" for line v
    unfolding env(2) by (rule example_download_ok)
  have r: "ToLower example_caseTable (TrimSpace ''  Y '') = ''y''" "ToLower example_caseTable (TrimSpace ''yes'') \<noteq> ''y''"
    "ToLower example_caseTable (TrimSpace []) \<noteq> ''y''" "ToLower example_caseTable (TrimSpace ''no'') \<noteq> ''y''"
    "ToLower example_caseTable (TrimSpace ''y'') = ''y''"
    "ToLower example_caseTable (TrimSpace [CHR 0xC2, CHR 0xA0, CHR ''y'']) = ''y''"
    by (simp_all add: string_simps)
  note t = iteration_prompt_decision [OF h1 h2, unfolded Let_def env]
  have a: "snd (iteration (example_turn gnome_os None ''  Y '') ''./Pictures'' initial_world) = Break"
    using t [of "''  Y ''" initial_world "[]"] r by blast
  have a': "snd (iteration (example_turn gnome_os None [CHR 0xC2, CHR 0xA0, CHR ''y''])
             ''./Pictures'' initial_world) = Break"
    using t [of "[CHR 0xC2, CHR 0xA0, CHR ''y'']" initial_world "[]"] r by blast
  have b: "snd (iteration (example_turn gnome_os None ''yes'') ''./Pictures'' initial_world) = Continue"
    using t [of "''yes''" initial_world "[]"] r by blast
  have c: "snd (iteration (example_turn gnome_os None []) ''./Pictures'' initial_world) = Continue"
    using t [of "[]" initial_world "[]"] r by blast
  have step: "session_loop (example_turn gnome_os None line # es) ''./Pictures'' v
      = (if ToLower example_caseTable (TrimSpace line) = ''y''
         then Some (fst (iteration (example_turn gnome_os None line) ''./Pictures'' v))
         else session_loop es ''./Pictures''
                (fst (iteration (example_turn gnome_os None line) ''./Pictures'' v)))" for line es v
    using t [of line v es] by blast
  have d: "session_loop [example_turn gnome_os None ''no'', example_turn gnome_os None ''y'']
        ''./Pictures'' initial_world \<noteq> None"
    by (simp add: step r del: session_loop.simps)
  have e: "session_loop [example_turn gnome_os None ''no'', example_turn gnome_os None ''yes'']
        ''./Pictures'' initial_world = None"
    by (simp only: step r if_False session_loop.simps(1))
  have m: "turns (example_main ts) = ts"
    "\<exists>u'. startup (example_main ts) initial_world = Inr (''./Pictures'', u')" for ts
    by (simp_all add: example_main_def startup_def TrimSpace_def TrimRightFunc.simps Let_def)
  have f: "snd (main (example_main [example_turn gnome_os None ''no'', example_turn gnome_os None ''y''])
             initial_world) = Some 0"
  proof -
    from m(2) obtain u' where
      "startup (example_main [example_turn gnome_os None ''no'', example_turn gnome_os None ''y''])
         initial_world = Inr (''./Pictures'', u')"
      by blast
    from t [THEN conjunct2, THEN conjunct2, THEN conjunct2, THEN conjunct2, THEN conjunct2,
            rule_format, OF this]
    show ?thesis
      by (simp add: m(1) step r del: session_loop.simps)
  qed
  have g: "snd (main (example_main [example_turn gnome_os None ''no'', example_turn gnome_os None ''yes''])
             initial_world) = None"
  proof -
    from m(2) obtain u' where
      "startup (example_main [example_turn gnome_os None ''no'', example_turn gnome_os None ''yes''])
         initial_world = Inr (''./Pictures'', u')"
      by blast
    from t [THEN conjunct2, THEN conjunct2, THEN conjunct2, THEN conjunct2, THEN conjunct2,
            rule_format, OF this]
    show ?thesis
      by (simp only: m(1) step r if_False if_True session_loop.simps(1) refl)
  qed
  from a a' b c d e f g show ?thesis by blast
qed

section \<open>The flush of the log decides the result\<close>

text \<open>
  C9. When the path is resolved and the tool of the branch has run without error and
  without diagnostics, the value that \<open>setWallpaper\<close> returns is the value of the flush
  of the log: an error when the log file cannot be opened or written, although the
  wallpaper was applied. A download that got as far as \<open>setWallpaper\<close> returns what
  \<open>setWallpaper\<close> returns. And a turn of the loop whose download returns an error
  reports it, flushes the log, sleeps two seconds and goes on with the next turn,
  without prompting.
\<close>

theorem setWallpaper_returns_log_flush:
  "let wm = snd (detectWindowManager e w);
       gsettings = [''gsettings'', ''set'', ''org.gnome.desktop.background'', ''picture-uri'',
                    ''file://'' @ absPath];
       feh = [''feh'', ''--bg-scale'', absPath];
       applied = ((wm = ''gnome'' \<and> cmd_err (run_cmd e gsettings) = None
                     \<and> cmd_stderr (run_cmd e gsettings) = [])
                  \<or> ((wm = ''dwm'' \<or> wm = ''i3'') \<and> LookPath e ''feh'' = None
                     \<and> cmd_err (run_cmd e feh) = None \<and> cmd_stderr (run_cmd e feh) = []));
       flush = (case wl_open (log_env e) of
                  Some err \<Rightarrow> Some (errors_New (''failed to open log file: '' @ Error err))
                | None \<Rightarrow>
                    (case wl_write (log_env e) of
                       Some (err, n) \<Rightarrow>
                         Some (errors_New (''failed to write to log file: '' @ Error err))
                     | None \<Rightarrow> None));
       w3 = logBuffer_WriteString (src @ nl)
              (Println src (fst (fetchRandomWallpaperURL (it_fetch t) v)));
       report = ''Error downloading wallpaper: '' @ Error err @ nl
   in (Abs (Getwd e) (Join [picturesDir, fileName]) = Inr absPath \<and> applied
         \<longrightarrow> (\<exists>u. setWallpaper e fileName picturesDir w = writeLog (log_env e) u
                  \<and> last (commands u) = (if wm = ''gnome'' then gsettings else feh))
             \<and> snd (setWallpaper e fileName picturesDir w) = flush)
    \<and> (url_Parse de url = None \<and> page_Do de = Inr resp \<and> StatusCode resp = 200
         \<and> Body resp = Inr doc \<and> extractImageSource doc = (imgSrc, True)
         \<and> url_Parse de imgSrc = None \<and> image_Do de = Inr imgResp \<and> StatusCode imgResp = 200
         \<and> create_fault de = None \<and> copy_fault de = None
         \<longrightarrow> (\<exists>u name. downloadWallpaper de url picturesDir w
                         = setWallpaper (set_env de) name picturesDir u))
    \<and> (snd (fetchRandomWallpaperURL (it_fetch t) v) = Inr src
         \<and> snd (downloadWallpaper (it_download t) src picturesDir w3) = Some err
         \<longrightarrow> iteration t picturesDir v
               = (Sleep 2 (writeLog_report (it_log t)
                    (logBuffer_WriteString report
                       (Print report (fst (downloadWallpaper (it_download t) src picturesDir w3))))),
                  Continue)
             \<and> session_loop (t # ts) picturesDir v
               = session_loop ts picturesDir (fst (iteration t picturesDir v)))"
proof -
  have one: "(\<exists>u. setWallpaper e fileName picturesDir w = writeLog (log_env e) u
                  \<and> last (commands u)
                      = (if snd (detectWindowManager e w) = ''gnome''
                         then [''gsettings'', ''set'', ''org.gnome.desktop.background'',
                               ''picture-uri'', ''file://'' @ absPath]
                         else [''feh'', ''--bg-scale'', absPath]))
             \<and> snd (setWallpaper e fileName picturesDir w)
                = (case wl_open (log_env e) of
                  Some err \<Rightarrow> Some (errors_New (''failed to open log file: '' @ Error err))
                | None \<Rightarrow>
                    (case wl_write (log_env e) of
                       Some (err, n) \<Rightarrow>
                         Some (errors_New (''failed to write to log file: '' @ Error err))
                     | None \<Rightarrow> None))"
    if "Abs (Getwd e) (Join [picturesDir, fileName]) = Inr absPath"
      and "(snd (detectWindowManager e w) = ''gnome''
            \<and> cmd_err (run_cmd e [''gsettings'', ''set'', ''org.gnome.desktop.background'',
                                   ''picture-uri'', ''file://'' @ absPath]) = None
            \<and> cmd_stderr (run_cmd e [''gsettings'', ''set'', ''org.gnome.desktop.background'',
                                      ''picture-uri'', ''file://'' @ absPath]) = [])
         \<or> ((snd (detectWindowManager e w) = ''dwm'' \<or> snd (detectWindowManager e w) = ''i3'')
            \<and> LookPath e ''feh'' = None
            \<and> cmd_err (run_cmd e [''feh'', ''--bg-scale'', absPath]) = None
            \<and> cmd_stderr (run_cmd e [''feh'', ''--bg-scale'', absPath]) = [])"
  proof -
    from setWallpaper_applied [OF that]
    obtain u where u: "setWallpaper e fileName picturesDir w = writeLog (log_env e) u"
      "last (commands u) = (if snd (detectWindowManager e w) = ''gnome''
                         then [''gsettings'', ''set'', ''org.gnome.desktop.background'',
                               ''picture-uri'', ''file://'' @ absPath]
                         else [''feh'', ''--bg-scale'', absPath])"
      by blast
    then show ?thesis
      using writeLog_result [of "log_env e" u] by auto
  qed
  have three: "iteration t picturesDir v
               = (Sleep 2 (writeLog_report (it_log t)
                    (logBuffer_WriteString (''Error downloading wallpaper: '' @ Error err @ nl)
                       (Print (''Error downloading wallpaper: '' @ Error err @ nl)
                          (fst (downloadWallpaper (it_download t) src picturesDir
                             (logBuffer_WriteString (src @ nl)
                                (Println src (fst (fetchRandomWallpaperURL (it_fetch t) v))))))))),
                  Continue)
             \<and> session_loop (t # ts) picturesDir v
               = session_loop ts picturesDir (fst (iteration t picturesDir v))"
    if "snd (fetchRandomWallpaperURL (it_fetch t) v) = Inr src"
      and "snd (downloadWallpaper (it_download t) src picturesDir
                (logBuffer_WriteString (src @ nl)
                   (Println src (fst (fetchRandomWallpaperURL (it_fetch t) v))))) = Some err"
    using iteration_download_failed [OF that] by simp
  show ?thesis
    unfolding Let_def
    using one three downloadWallpaper_reaches_setWallpaper [of de url resp doc imgSrc imgResp picturesDir w]
    by blast
qed


theorem setWallpaper_returns_log_flush_witness:
  "snd (setWallpaper (log_fails gnome_os) ''1793696700123-zy3kqw.png'' ''./Pictures'' initial_world)
     = Some (errors_New ''failed to open log file: permission denied'')
   \<and> snd (iteration (example_turn (log_fails gnome_os) None ''y'') ''./Pictures'' initial_world)
     = Continue
   \<and> session_loop [example_turn (log_fails gnome_os) None ''y''] ''./Pictures'' initial_world = None
   \<and> (\<exists>u name. downloadWallpaper (example_dl doc_detail None (log_fails gnome_os))
                      ''https://wallhaven.cc/w/zy3kqw'' ''./Pictures'' initial_world
                    = setWallpaper (log_fails gnome_os) name ''./Pictures'' u)"
proof -
  note T = setWallpaper_returns_log_flush [unfolded Let_def]
  have env: "Getwd (log_fails gnome_os) = Inr ''/home/u/w''"
    "cmd_err (run_cmd (log_fails gnome_os) argv) = None"
    "cmd_stderr (run_cmd (log_fails gnome_os) argv) = []"
    "wl_open (log_env (log_fails gnome_os)) = Some (errors_New ''permission denied'')" for argv
    by (simp_all add: log_fails_def gnome_os_def example_os_def ok_result_def)
  have det: "snd (detectWindowManager (log_fails gnome_os) v) = ''gnome''" for v
    by (simp add: detectWindowManager_def log_fails_def gnome_os_def eval_simps)
  have a: "Abs (Getwd (log_fails gnome_os)) (Join [''./Pictures'', ''1793696700123-zy3kqw.png''])
             = Inr ''/home/u/w/Pictures/1793696700123-zy3kqw.png''"
    using example_absPath by (simp add: env)
  have sw: "snd (setWallpaper (log_fails gnome_os) ''1793696700123-zy3kqw.png'' ''./Pictures'' v)
     = Some (errors_New ''failed to open log file: permission denied'')" for v
    using T [THEN conjunct1, of "log_fails gnome_os" "''./Pictures''" "''1793696700123-zy3kqw.png''"
             "''/home/u/w/Pictures/1793696700123-zy3kqw.png''" v] a
    by (simp add: env det)
  have turn: "it_fetch (example_turn (log_fails gnome_os) None ''y'') = example_fetch"
    "it_download (example_turn (log_fails gnome_os) None ''y'')
       = example_dl doc_detail None (log_fails gnome_os)"
    by (simp_all add: example_turn_def)
  have dl: "snd (downloadWallpaper (example_dl doc_detail None (log_fails gnome_os)) url
                   ''./Pictures'' v)
     = Some (errors_New ''failed to open log file: permission denied'')" for url v
    using example_download_run [of "log_fails gnome_os" url v] sw by auto
  have "iteration (example_turn (log_fails gnome_os) None ''y'') ''./Pictures'' initial_world
          = (Sleep 2 (writeLog_report (it_log (example_turn (log_fails gnome_os) None ''y''))
               (logBuffer_WriteString
                  (''Error downloading wallpaper: ''
                   @ Error (errors_New ''failed to open log file: permission denied'') @ nl)
                  (Print (''Error downloading wallpaper: ''
                          @ Error (errors_New ''failed to open log file: permission denied'') @ nl)
                     (fst (downloadWallpaper (it_download (example_turn (log_fails gnome_os) None ''y''))
                        ''https://wallhaven.cc/w/zy3kqw'' ''./Pictures''
                        (logBuffer_WriteString (''https://wallhaven.cc/w/zy3kqw'' @ nl)
                           (Println ''https://wallhaven.cc/w/zy3kqw''
                              (fst (fetchRandomWallpaperURL
                                      (it_fetch (example_turn (log_fails gnome_os) None ''y''))
                                      initial_world))))))))),
             Continue)
        \<and> session_loop [example_turn (log_fails gnome_os) None ''y''] ''./Pictures'' initial_world
          = session_loop [] ''./Pictures''
              (fst (iteration (example_turn (log_fails gnome_os) None ''y'') ''./Pictures''
                      initial_world))"
    by (rule T [THEN conjunct2, THEN conjunct2, rule_format])
       (simp add: turn example_fetch_run dl)
  then have "snd (iteration (example_turn (log_fails gnome_os) None ''y'') ''./Pictures'' initial_world)
                = Continue"
    and "session_loop [example_turn (log_fails gnome_os) None ''y''] ''./Pictures'' initial_world = None"
    by simp_all
  moreover have "\<exists>u name. downloadWallpaper (example_dl doc_detail None (log_fails gnome_os))
                      ''https://wallhaven.cc/w/zy3kqw'' ''./Pictures'' initial_world
                    = setWallpaper (log_fails gnome_os) name ''./Pictures'' u"
    using T [where de = "example_dl doc_detail None (log_fails gnome_os)"
               and url = "''https://wallhaven.cc/w/zy3kqw''"
               and resp = "\<lparr>StatusCode = 200, Body = Inr doc_detail\<rparr>" and doc = doc_detail
               and imgSrc = "''https://w.wallhaven.cc/full/zy/wallhaven-zy3kqw.png''"
               and imgResp = "\<lparr>StatusCode = 200, Body = ''PNG-IMAGE-BYTES''\<rparr>"
               and picturesDir = "''./Pictures''" and w = initial_world,
             THEN conjunct2, THEN conjunct1]
    by (simp add: example_dl_def doc_detail_eval)
  ultimately show ?thesis
    using sw [of initial_world] by blast
qed

section \<open>Persistence in the i3 configuration\<close>

text \<open>
  C6. The persistence step looks at \<open>$HOME/.config/i3/config\<close>. When the file exists
  and is read, and its content does not contain \<open>feh --bg-scale\<close> followed by the
  absolute path, the step appends an empty line and the directive
  \<open>exec --no-startup-id feh --bg-scale\<close> with that path; when the content contains the
  invocation, or the file does not exist, nothing changes. A failure to read, to open
  for appending or to write adds a warning to the log buffer and nothing else (a failed
  write leaves what it wrote). On i3, once \<open>feh\<close> has run without error and without
  diagnostics, \<open>setWallpaper\<close> runs this step and returns the result of the flush of
  the log; when the flush succeeds it returns no error, whatever the failures of the
  step.
\<close>

theorem i3_persist_best_effort:
  "let configPath = Join [Getenv e ''HOME'', ''.config'', ''i3'', ''config''];
       invocation = ''feh --bg-scale '' @ absPath;
       directive = nl @ ''exec --no-startup-id feh --bg-scale '' @ absPath @ nl;
       w' = i3_persist e absPath w;
       found = (stat_fault e = None \<and> files w configPath = Some content)
   in (found \<and> read_fault e = None \<and> \<not> Contains content invocation
         \<and> open_fault e = None \<and> write_fault e = None
         \<longrightarrow> files w' = (files w)(configPath \<mapsto> content @ directive)
             \<and> logBuffer w' = logBuffer w @ ''Added feh command to i3 config for persistence'' @ nl)
    \<and> (found \<and> read_fault e = None \<and> Contains content invocation \<longrightarrow> w' = w)
    \<and> (files w configPath = None \<longrightarrow> w' = w)
    \<and> (found \<and> read_fault e = Some err
         \<longrightarrow> w' = logBuffer_WriteString (''Warning: could not read i3 config: '' @ Error err @ nl) w)
    \<and> (found \<and> read_fault e = None \<and> \<not> Contains content invocation \<and> open_fault e = Some err
         \<longrightarrow> w' = logBuffer_WriteString
                    (''Warning: could not append to i3 config: '' @ Error err @ nl) w)
    \<and> (found \<and> read_fault e = None \<and> \<not> Contains content invocation \<and> open_fault e = None
         \<and> write_fault e = Some (err, n)
         \<longrightarrow> logBuffer w' = logBuffer w @ ''Warning: could not write to i3 config: '' @ Error err @ nl
             \<and> files w' = (files w)(configPath \<mapsto> content @ take n directive))
    \<and> (Abs (Getwd e) (Join [picturesDir, fileName]) = Inr absPath
         \<and> snd (detectWindowManager e v) = ''i3'' \<and> LookPath e ''feh'' = None
         \<and> cmd_err (run_cmd e [''feh'', ''--bg-scale'', absPath]) = None
         \<and> cmd_stderr (run_cmd e [''feh'', ''--bg-scale'', absPath]) = []
         \<longrightarrow> (\<exists>u. setWallpaper e fileName picturesDir v
                    = writeLog (log_env e)
                        (Println ''Wallpaper Set''
                           (logBuffer_WriteString (''Wallpaper Set'' @ nl) (i3_persist e absPath u)))
                  \<and> files u = files v)
             \<and> (wl_open (log_env e) = None \<and> wl_write (log_env e) = None
                  \<longrightarrow> snd (setWallpaper e fileName picturesDir v) = None))"
proof -
  have persist: "i3_persist e absPath w =
     (if stat_fault e = None \<and> files w (Join [Getenv e ''HOME'', ''.config'', ''i3'', ''config'']) \<noteq> None
      then (case read_fault e of
              Some err \<Rightarrow>
                logBuffer_WriteString (''Warning: could not read i3 config: '' @ Error err @ nl) w
            | None \<Rightarrow>
                if \<not> Contains (file_content (files w)
                                  (Join [Getenv e ''HOME'', ''.config'', ''i3'', ''config'']))
                       (''feh --bg-scale '' @ absPath)
                then (case open_fault e of
                        Some err \<Rightarrow>
                          logBuffer_WriteString
                            (''Warning: could not append to i3 config: '' @ Error err @ nl) w
                      | None \<Rightarrow>
                          (case write_fault e of
                             Some (err, n) \<Rightarrow>
                               logBuffer_WriteString
                                 (''Warning: could not write to i3 config: '' @ Error err @ nl)
                                 (append_file (Join [Getenv e ''HOME'', ''.config'', ''i3'', ''config''])
                                    (take n (nl @ ''exec --no-startup-id feh --bg-scale '' @ absPath @ nl)) w)
                           | None \<Rightarrow>
                               logBuffer_WriteString
                                 (''Added feh command to i3 config for persistence'' @ nl)
                                 (append_file (Join [Getenv e ''HOME'', ''.config'', ''i3'', ''config''])
                                    (nl @ ''exec --no-startup-id feh --bg-scale '' @ absPath @ nl) w)))
                else w)
      else w)"
    unfolding i3_persist_def Let_def by (rule refl)
  have sw: "(\<exists>u. setWallpaper e fileName picturesDir v
                    = writeLog (log_env e)
                        (Println ''Wallpaper Set''
                           (logBuffer_WriteString (''Wallpaper Set'' @ nl) (i3_persist e absPath u)))
                  \<and> files u = files v)
             \<and> (wl_open (log_env e) = None \<and> wl_write (log_env e) = None
                  \<longrightarrow> snd (setWallpaper e fileName picturesDir v) = None)"
    if "Abs (Getwd e) (Join [picturesDir, fileName]) = Inr absPath"
      "snd (detectWindowManager e v) = ''i3''" "LookPath e ''feh'' = None"
      "cmd_err (run_cmd e [''feh'', ''--bg-scale'', absPath]) = None"
      "cmd_stderr (run_cmd e [''feh'', ''--bg-scale'', absPath]) = []"
  proof -
    from setWallpaper_i3 [OF that]
    obtain u where u: "setWallpaper e fileName picturesDir v
                    = writeLog (log_env e)
                        (Println ''Wallpaper Set''
                           (logBuffer_WriteString (''Wallpaper Set'' @ nl) (i3_persist e absPath u)))"
      "files u = files v"
      by blast
    have "snd (setWallpaper e fileName picturesDir v) = None"
      if "wl_open (log_env e) = None" "wl_write (log_env e) = None"
      unfolding u(1) writeLog_result by (simp add: that)
    with u show ?thesis by blast
  qed
  show ?thesis
    unfolding Let_def
    apply (intro conjI impI)
    subgoal by (simp add: persist files_simps logBuffer_simps file_content_def)
    subgoal by (simp add: persist files_simps logBuffer_simps file_content_def)
    subgoal by (simp add: persist files_simps logBuffer_simps file_content_def)
    subgoal by (simp add: persist files_simps logBuffer_simps file_content_def)
    subgoal by (simp add: persist files_simps logBuffer_simps file_content_def)
    subgoal by (simp add: persist files_simps logBuffer_simps file_content_def)
    subgoal by (simp add: persist files_simps logBuffer_simps file_content_def)
    subgoal by (simp add: persist files_simps logBuffer_simps file_content_def)
    subgoal using sw by blast
    subgoal using sw by blast
    done
qed


theorem i3_persist_best_effort_witness:
  "files (i3_persist i3_os ''/home/u/w/Pictures/1793696700123-zy3kqw.png'' config_world)
      ''/home/u/.config/i3/config''
     = Some (''# i3 config file'' @ nl @ nl
             @ ''exec --no-startup-id feh --bg-scale /home/u/w/Pictures/1793696700123-zy3kqw.png''
             @ nl)
   \<and> i3_persist (i3_os\<lparr>read_fault := Some (errors_New ''permission denied'')\<rparr>)
        ''/home/u/w/Pictures/1793696700123-zy3kqw.png'' config_world
     = logBuffer_WriteString (''Warning: could not read i3 config: permission denied'' @ nl)
         config_world
   \<and> snd (setWallpaper (i3_os\<lparr>read_fault := Some (errors_New ''permission denied'')\<rparr>)
            ''1793696700123-zy3kqw.png'' ''./Pictures'' config_world) = None
   \<and> snd (setWallpaper (i3_os\<lparr>write_fault := Some (errors_New ''no space left on device'', 3)\<rparr>)
            ''1793696700123-zy3kqw.png'' ''./Pictures'' config_world) = None
   \<and> i3_persist i3_os ''/home/u/w/Pictures/1793696700123-zy3kqw.png'' initial_world = initial_world
   \<and> i3_persist i3_os ''/home/u/w/Pictures/old.png'' persisted_world = persisted_world
   \<and> i3_persist (i3_os\<lparr>open_fault := Some (errors_New ''read-only file system'')\<rparr>)
        ''/home/u/w/Pictures/1793696700123-zy3kqw.png'' config_world
     = logBuffer_WriteString (''Warning: could not append to i3 config: read-only file system'' @ nl)
         config_world
   \<and> files (i3_persist (i3_os\<lparr>write_fault := Some (errors_New ''no space left on device'', 3)\<rparr>)
               ''/home/u/w/Pictures/1793696700123-zy3kqw.png'' config_world)
        ''/home/u/.config/i3/config''
     = Some (''# i3 config file'' @ nl @ nl @ ''ex'')"
proof -
  note T = i3_persist_best_effort [unfolded Let_def]
  let ?abs = "''/home/u/w/Pictures/1793696700123-zy3kqw.png''"
  let ?content = "''# i3 config file'' @ nl"
  have home: "Getenv (i3_os\<lparr>read_fault := r, write_fault := x\<rparr>) ''HOME'' = ''/home/u''" for r x
    by (simp add: i3_os_def example_os_def)
  have cfg: "files config_world ''/home/u/.config/i3/config'' = Some ?content"
    by (simp add: config_world_def)
  have fresh: "\<not> Contains ?content (''feh --bg-scale '' @ ?abs)"
    by simp
  have env: "stat_fault i3_os = None" "read_fault i3_os = None" "open_fault i3_os = None"
    "write_fault i3_os = None" "Getenv i3_os ''HOME'' = ''/home/u''"
    by (simp_all add: i3_os_def example_os_def)
  have a: "files (i3_persist i3_os ?abs config_world)
     = (files config_world)(''/home/u/.config/i3/config'' \<mapsto>
          ?content @ nl @ ''exec --no-startup-id feh --bg-scale '' @ ?abs @ nl)"
    using T [THEN conjunct1, of i3_os config_world ?content ?abs] cfg fresh
    by (simp add: env example_configPath)
  have b: "i3_persist (i3_os\<lparr>read_fault := Some (errors_New ''permission denied'')\<rparr>) ?abs config_world
     = logBuffer_WriteString (''Warning: could not read i3 config: permission denied'' @ nl)
         config_world"
    using T [THEN conjunct2, THEN conjunct2, THEN conjunct2, THEN conjunct1,
             of "i3_os\<lparr>read_fault := Some (errors_New ''permission denied'')\<rparr>" config_world
                ?content "errors_New ''permission denied''" ?abs] cfg
    by (simp add: env example_configPath i3_os_def example_os_def)
  have os: "Getwd (i3_os\<lparr>read_fault := r, write_fault := x\<rparr>) = Inr ''/home/u/w''"
    "LookPath (i3_os\<lparr>read_fault := r, write_fault := x\<rparr>) ''feh'' = None"
    "cmd_err (run_cmd (i3_os\<lparr>read_fault := r, write_fault := x\<rparr>) [''feh'', ''--bg-scale'', ?abs]) = None"
    "cmd_stderr (run_cmd (i3_os\<lparr>read_fault := r, write_fault := x\<rparr>) [''feh'', ''--bg-scale'', ?abs]) = []"
    "wl_open (log_env (i3_os\<lparr>read_fault := r, write_fault := x\<rparr>)) = None"
    "wl_write (log_env (i3_os\<lparr>read_fault := r, write_fault := x\<rparr>)) = None" for r x
    by (simp_all add: i3_os_def example_os_def pgrep_finds_def ok_result_def example_log_def)
  have os0: "Getwd i3_os = Inr ''/home/u/w''" "LookPath i3_os ''feh'' = None"
    "cmd_err (run_cmd i3_os [''feh'', ''--bg-scale'', ?abs]) = None"
    "cmd_stderr (run_cmd i3_os [''feh'', ''--bg-scale'', ?abs]) = []"
    "wl_open (log_env i3_os) = None" "wl_write (log_env i3_os) = None"
    by (simp_all add: i3_os_def example_os_def pgrep_finds_def ok_result_def example_log_def)
  have det: "snd (detectWindowManager (i3_os\<lparr>read_fault := r, write_fault := x\<rparr>) v) = ''i3''" for r x v
    by (simp add: detectWindowManager_def cmd_exec_def i3_os_def eval_simps)
  have sw: "snd (setWallpaper (i3_os\<lparr>read_fault := r, write_fault := x\<rparr>)
                   ''1793696700123-zy3kqw.png'' ''./Pictures'' config_world) = None" for r x
    using T [THEN conjunct2, THEN conjunct2, THEN conjunct2, THEN conjunct2, THEN conjunct2,
             THEN conjunct2,
             of "i3_os\<lparr>read_fault := r, write_fault := x\<rparr>" "''./Pictures''"
                "''1793696700123-zy3kqw.png''" ?abs config_world]
          example_absPath
    by (simp add: os os0 det)
  have c: "snd (setWallpaper (i3_os\<lparr>read_fault := Some (errors_New ''permission denied'')\<rparr>)
            ''1793696700123-zy3kqw.png'' ''./Pictures'' config_world) = None"
    using sw [where r = "Some (errors_New ''permission denied'')" and x = None]
    by (simp add: i3_os_def example_os_def)
  have d: "snd (setWallpaper (i3_os\<lparr>write_fault := Some (errors_New ''no space left on device'', 3)\<rparr>)
            ''1793696700123-zy3kqw.png'' ''./Pictures'' config_world) = None"
    using sw [where r = None and x = "Some (errors_New ''no space left on device'', 3)"]
    by (simp add: i3_os_def example_os_def)
  have none: "files initial_world ''/home/u/.config/i3/config'' = None"
    by (simp add: initial_world_def)
  have e: "i3_persist i3_os ?abs initial_world = initial_world"
    using T [where e = i3_os and w = initial_world and absPath = ?abs,
             THEN conjunct2, THEN conjunct2, THEN conjunct1] none
    by (simp add: env example_configPath)
  have had: "files persisted_world ''/home/u/.config/i3/config''
               = Some (''exec --no-startup-id feh --bg-scale /home/u/w/Pictures/old.png'' @ nl)"
    by (simp add: persisted_world_def initial_world_def)
  have old: "Contains (''exec --no-startup-id feh --bg-scale /home/u/w/Pictures/old.png'' @ nl)
               (''feh --bg-scale '' @ ''/home/u/w/Pictures/old.png'')"
    by simp
  have f: "i3_persist i3_os ''/home/u/w/Pictures/old.png'' persisted_world = persisted_world"
    using T [where e = i3_os and w = persisted_world
               and content = "''exec --no-startup-id feh --bg-scale /home/u/w/Pictures/old.png'' @ nl"
               and absPath = "''/home/u/w/Pictures/old.png''",
             THEN conjunct2, THEN conjunct1] had old
    by (simp add: env example_configPath)
  have g: "i3_persist (i3_os\<lparr>open_fault := Some (errors_New ''read-only file system'')\<rparr>) ?abs
             config_world
     = logBuffer_WriteString (''Warning: could not append to i3 config: read-only file system'' @ nl)
         config_world"
    using T [where e = "i3_os\<lparr>open_fault := Some (errors_New ''read-only file system'')\<rparr>"
               and w = config_world and content = ?content and absPath = ?abs
               and err = "errors_New ''read-only file system''",
             THEN conjunct2, THEN conjunct2, THEN conjunct2, THEN conjunct2, THEN conjunct1]
          cfg fresh
    by (simp add: env example_configPath)
  have h: "files (i3_persist (i3_os\<lparr>write_fault := Some (errors_New ''no space left on device'', 3)\<rparr>)
               ?abs config_world) ''/home/u/.config/i3/config''
     = Some (''# i3 config file'' @ nl @ nl @ ''ex'')"
    using T [where e = "i3_os\<lparr>write_fault := Some (errors_New ''no space left on device'', 3)\<rparr>"
               and w = config_world and content = ?content and absPath = ?abs
               and err = "errors_New ''no space left on device''" and n = 3,
             THEN conjunct2, THEN conjunct2, THEN conjunct2, THEN conjunct2, THEN conjunct2,
             THEN conjunct1] cfg fresh
    by (simp add: env example_configPath take_Cons')
  from a b c d e f g h show ?thesis
    by (simp add: cfg)
qed

section \<open>A download that fails while copying\<close>



end
